theory Spec2Isabelle
  imports Complex_Main "HOL-Library.Word" "HOL-Library.Log_Nat"
begin

section \<open>Python strings\<close>

text \<open>
  A string is a list of 8-bit characters, each standing for the code point of its number.
  Case mapping is the one of CPython on ASCII text: it touches the letters A-Z and a-z
  only, so \<open>lower\<close> and \<open>capitalize\<close> agree with \<^verbatim>\<open>str.lower\<close> and \<^verbatim>\<open>str.capitalize\<close> on
  ASCII strings, which is where they are used: on the taxonomy, on the labels and sentinels
  returned by \<^verbatim>\<open>makePrediction\<close>, and on file extensions (no character outside ASCII
  lower-cases to an ASCII letter of an allowed extension).  What is proved of the formatter
  is stated for ASCII input.
\<close>

definition is_ascii :: "string \<Rightarrow> bool" where
  "is_ascii s = list_all (\<lambda>c. (of_char c :: nat) < 128) s"

definition is_upper :: "char \<Rightarrow> bool" where
  "is_upper c = (65 \<le> (of_char c :: nat) \<and> (of_char c :: nat) \<le> 90)"

definition is_lower :: "char \<Rightarrow> bool" where
  "is_lower c = (97 \<le> (of_char c :: nat) \<and> (of_char c :: nat) \<le> 122)"

definition lower_char :: "char \<Rightarrow> char" where
  "lower_char c = (if is_upper c then char_of ((of_char c :: nat) + 32) else c)"

definition upper_char :: "char \<Rightarrow> char" where
  "upper_char c = (if is_lower c then char_of ((of_char c :: nat) - 32) else c)"

text \<open>\<^verbatim>\<open>s.lower()\<close>\<close>

definition lower :: "string \<Rightarrow> string" where
  "lower s = map lower_char s"

text \<open>\<^verbatim>\<open>s.capitalize()\<close>: first character upper-cased, the rest lower-cased.\<close>

fun capitalize :: "string \<Rightarrow> string" where
  "capitalize [] = []"
| "capitalize (c # cs) = upper_char c # lower cs"

text \<open>\<^verbatim>\<open>s.startswith(p)\<close>\<close>

fun startswith :: "string \<Rightarrow> string \<Rightarrow> bool" where
  "startswith s [] = True"
| "startswith [] (p # ps) = False"
| "startswith (c # cs) (p # ps) = (c = p \<and> startswith cs ps)"

text \<open>\<^verbatim>\<open>sub in s\<close>\<close>

fun contains :: "string \<Rightarrow> string \<Rightarrow> bool" where
  "contains sub [] = (sub = [])"
| "contains sub (c # cs) = (startswith (c # cs) sub \<or> contains sub cs)"

text \<open>\<^verbatim>\<open>os.path.basename(path)\<close> on POSIX: everything after the last slash.\<close>

definition basename :: "string \<Rightarrow> string" where
  "basename path = rev (takeWhile (\<lambda>c. c \<noteq> CHR ''/'') (rev path))"

section \<open>The class taxonomy\<close>

text \<open>The list \<^verbatim>\<open>classes\<close> of \<^verbatim>\<open>makePrediction\<close> (utilities.py, lines 36-75).\<close>

definition classes :: "string list" where
  "classes =
   [''Apple___Apple_scab'',
    ''Apple___Black_rot'',
    ''Apple___Cedar_apple_rust'',
    ''Apple___healthy'',
    ''Blueberry___healthy'',
    ''Cherry_(including_sour)___Powdery_mildew'',
    ''Cherry_(including_sour)___healthy'',
    ''Corn_(maize)___Cercospora_leaf_spot Gray_leaf_spot'',
    ''Corn_(maize)___Common_rust_'',
    ''Corn_(maize)___Northern_Leaf_Blight'',
    ''Corn_(maize)___healthy'',
    ''Grape___Black_rot'',
    ''Grape___Esca_(Black_Measles)'',
    ''Grape___Leaf_blight_(Isariopsis_Leaf_Spot)'',
    ''Grape___healthy'',
    ''Orange___Haunglongbing_(Citrus_greening)'',
    ''Peach___Bacterial_spot'',
    ''Peach___healthy'',
    ''Pepper,_bell___Bacterial_spot'',
    ''Pepper,_bell___healthy'',
    ''Potato___Early_blight'',
    ''Potato___Late_blight'',
    ''Potato___healthy'',
    ''Raspberry___healthy'',
    ''Soybean___healthy'',
    ''Squash___Powdery_mildew'',
    ''Strawberry___Leaf_scorch'',
    ''Strawberry___healthy'',
    ''Tomato___Bacterial_spot'',
    ''Tomato___Early_blight'',
    ''Tomato___Late_blight'',
    ''Tomato___Leaf_Mold'',
    ''Tomato___Septoria_leaf_spot'',
    ''Tomato___Spider_mites Two-spotted_spider_mite'',
    ''Tomato___Target_Spot'',
    ''Tomato___Tomato_Yellow_Leaf_Curl_Virus'',
    ''Tomato___Tomato_mosaic_virus'',
    ''Tomato___healthy'']"

text \<open>The test \<^verbatim>\<open>'healthy' in c.lower()\<close> that partitions the taxonomy.\<close>

definition is_healthy :: "string \<Rightarrow> bool" where
  "is_healthy c = contains ''healthy'' (lower c)"

text \<open>The reserved prefix of the error sentinels.\<close>

definition is_error :: "string \<Rightarrow> bool" where
  "is_error s = startswith s ''Error:''"

text \<open>\<^verbatim>\<open>str(n)\<close> for a non-negative integer: its decimal digits.\<close>

fun str_nat :: "nat \<Rightarrow> string" where
  "str_nat n = (if n < 10 then [char_of (48 + n)] else str_nat (n div 10) @ [char_of (48 + n mod 10)])"

declare str_nat.simps [simp del]

section \<open>IEEE 754 binary64 arithmetic\<close>

text \<open>
  NumPy's means and the comparison against \<^verbatim>\<open>mean * 1.2\<close> are computed in float64.  A finite
  double is a rational number, so a float64 value is modelled as a \<^typ>\<open>rat\<close> and every operation
  as the exact operation followed by rounding to 53 significant bits, ties to even.  Only the
  normal range is modelled: the values that occur are channel means in [0, 255] (zero, or at
  least 1 / 25000000) and their products with 1.2, far from overflow and from subnormals.
\<close>

definition round_half_even :: "rat \<Rightarrow> int" where
  "round_half_even y =
     (let f = \<lfloor>y\<rfloor>; r = y - of_int f
      in if r < 1 / 2 then f else if 1 / 2 < r then f + 1 else if even f then f else f + 1)"

text \<open>For \<open>x > 0\<close>: the binary exponent \<open>e\<close> with \<open>2\<^sup>e \<le> x < 2\<^sup>e\<^sup>+\<^sup>1\<close>.\<close>

definition f64_exponent :: "rat \<Rightarrow> int" where
  "f64_exponent x =
     (let (p, q) = quotient_of x; d = bitlen p - bitlen q
      in if 2 powi d \<le> x then d else d - 1)"

definition f64_round :: "rat \<Rightarrow> rat" where
  "f64_round x =
     (if x = 0 then 0
      else let e = f64_exponent \<bar>x\<bar> - 52
           in of_int (round_half_even (x / 2 powi e)) * 2 powi e)"

definition f64_mul :: "rat \<Rightarrow> rat \<Rightarrow> rat" where
  "f64_mul a b = f64_round (a * b)"

definition f64_div :: "rat \<Rightarrow> rat \<Rightarrow> rat" where
  "f64_div a b = f64_round (a / b)"

text \<open>The Python literal \<^verbatim>\<open>1.2\<close>: the double nearest to 6/5.\<close>

definition f64_1_2 :: rat where
  "f64_1_2 = f64_round (6 / 5)"

section \<open>Images, files and the Python process\<close>

text \<open>A pixel of an RGB image: three unsigned bytes (NumPy dtype \<^verbatim>\<open>uint8\<close>).\<close>

type_synonym pixel = "8 word \<times> 8 word \<times> 8 word"

text \<open>
  A PIL image object as the code reads it: \<^verbatim>\<open>img.format\<close>, \<^verbatim>\<open>img.size\<close> (width, height),
  the attribute \<^verbatim>\<open>img.filename\<close> when the object has one (\<^verbatim>\<open>hasattr\<close>), and what
  \<^verbatim>\<open>np.array(img)\<close> gives: the pixels row by row, or the message of the exception it raises.
\<close>

record image =
  img_format :: string
  img_size :: "nat \<times> nat"
  img_filename :: "string option"
  img_pixels :: "string + pixel list"

text \<open>
  A file on disk: \<^verbatim>\<open>os.path.getsize\<close> and the outcome of \<^verbatim>\<open>Image.open\<close> on it
  (\<open>Inl\<close> carries the message of the exception raised for bytes that are no image).
\<close>

record stored_file =
  file_size :: nat
  opened :: "string + image"

text \<open>The file system: the files by path, and whether writing to it succeeds.\<close>

record world =
  files :: "string \<Rightarrow> stored_file option"
  writable :: bool

text \<open>
  What is fixed when the Python process starts: the two import probes at the top of
  utilities.py, the built-in \<^verbatim>\<open>hash\<close> on strings (CPython keys it with a secret drawn at
  process start unless \<^verbatim>\<open>PYTHONHASHSEED\<close> pins it), and the library calls whose code is not
  part of the repository: PIL's \<^verbatim>\<open>img.convert('RGB')\<close> (\<open>Inl\<close> when it raises), NumPy's
  \<^verbatim>\<open>str\<close> of the mean vector, and \<^verbatim>\<open>str(np.std(img_array, axis=(0, 1)))\<close>; and
  \<^verbatim>\<open>os.getcwd()\<close> at import time.
\<close>

record runtime =
  HAS_PIL :: bool
  HAS_NUMPY :: bool
  hash :: "string \<Rightarrow> int"
  convert_RGB :: "image \<Rightarrow> string + image"
  str_mean :: "rat \<times> rat \<times> rat \<Rightarrow> string"
  str_std :: "pixel list \<Rightarrow> string"
  cwd :: string

section \<open>utilities.py\<close>

text \<open>
  \<^verbatim>\<open>np.mean(img_array, axis=(0, 1))\<close>: per channel, the sum of the bytes (exact in float64, being
  an integer below \<open>2\<^sup>5\<^sup>3\<close>) divided by the number of pixels.
\<close>

definition f64_mean :: "nat list \<Rightarrow> rat" where
  "f64_mean xs = f64_div (of_nat (sum_list xs)) (of_nat (length xs))"

definition red :: "pixel list \<Rightarrow> nat list" where
  "red px = map (\<lambda>(r, g, b). unat r) px"

definition green :: "pixel list \<Rightarrow> nat list" where
  "green px = map (\<lambda>(r, g, b). unat g) px"

definition blue :: "pixel list \<Rightarrow> nat list" where
  "blue px = map (\<lambda>(r, g, b). unat b) px"

definition np_mean :: "pixel list \<Rightarrow> rat \<times> rat \<times> rat" where
  "np_mean px = (f64_mean (red px), f64_mean (green px), f64_mean (blue px))"

text \<open>
  The test of line 138:
  \<^verbatim>\<open>mean_color[1] > mean_color[0] * 1.2 and mean_color[1] > mean_color[2] * 1.2\<close>.
\<close>

definition very_green :: "rat \<times> rat \<times> rat \<Rightarrow> bool" where
  "very_green mean_color =
     (case mean_color of (r, g, b) \<Rightarrow> f64_mul r f64_1_2 < g \<and> f64_mul b f64_1_2 < g)"

text \<open>\<^verbatim>\<open>xs[abs(h) % len(xs)]\<close>, for a non-empty list; the index is always in range.\<close>

definition pick :: "string list \<Rightarrow> int \<Rightarrow> string" where
  "pick xs h = xs ! nat (\<bar>h\<bar> mod int (length xs))"

text \<open>The last statement of the \<^verbatim>\<open>try\<close> block: \<^verbatim>\<open>classes[0] if classes else "Unknown"\<close>.\<close>

definition fallback :: "string list \<Rightarrow> string" where
  "fallback cls = (case cls of [] \<Rightarrow> ''Unknown'' | c # _ \<Rightarrow> c)"

text \<open>
  The body of the \<^verbatim>\<open>try\<close> block of \<^verbatim>\<open>mock_prediction\<close> (lines 126-170).  \<open>Inl\<close> is an
  exception leaving the block; the call that can raise is \<^verbatim>\<open>np.array(img)\<close>.
\<close>

definition mock_prediction_try :: "runtime \<Rightarrow> image \<Rightarrow> string list \<Rightarrow> string + string" where
  "mock_prediction_try rt img cls =
     (case img_size img of (width, height) \<Rightarrow>
        if HAS_NUMPY rt then
          (case img_pixels img of
             Inl e \<Rightarrow> Inl e
           | Inr img_array \<Rightarrow>
               let mean_color = np_mean img_array;
                   std_color = str_std rt img_array;
                   healthy_classes = filter is_healthy cls;
                   disease_classes = filter (\<lambda>c. \<not> is_healthy c) cls
               in if very_green mean_color \<and> healthy_classes \<noteq> []
                  then Inr (pick healthy_classes (hash rt (str_mean rt mean_color)))
                  else if disease_classes \<noteq> []
                  then Inr (pick disease_classes (hash rt (str_mean rt mean_color @ std_color)))
                  else Inr (fallback cls))
        else
          (let filename_hash =
                 \<bar>hash rt (case img_filename img of Some name \<Rightarrow> name
                                                  | None \<Rightarrow> str_nat (width * height))\<bar>;
               healthy_classes = filter is_healthy cls;
               disease_classes = filter (\<lambda>c. \<not> is_healthy c) cls
           in if filename_hash mod 4 = 0 \<and> healthy_classes \<noteq> []
              then Inr (pick healthy_classes filename_hash)
              else if disease_classes \<noteq> []
              then Inr (pick disease_classes filename_hash)
              else Inr (fallback cls)))"

text \<open>\<^verbatim>\<open>mock_prediction\<close>: the block above under its handler, \<^verbatim>\<open>return "Tomato___healthy"\<close>.\<close>

definition mock_prediction :: "runtime \<Rightarrow> image \<Rightarrow> string list \<Rightarrow> string" where
  "mock_prediction rt img cls =
     (case mock_prediction_try rt img cls of Inl e \<Rightarrow> ''Tomato___healthy'' | Inr label \<Rightarrow> label)"

text \<open>
  The inner \<^verbatim>\<open>try\<close> block of \<^verbatim>\<open>makePrediction\<close> (lines 93-107): open, convert, check the
  dimensions.  \<open>Inl\<close> is the sentinel returned from inside the block or by its handler.
\<close>

definition load_image :: "runtime \<Rightarrow> stored_file \<Rightarrow> string + image" where
  "load_image rt f =
     (case opened f of
        Inl e \<Rightarrow> Inl ''Error: Invalid image format''
      | Inr img0 \<Rightarrow>
          (case convert_RGB rt img0 of
             Inl e \<Rightarrow> Inl ''Error: Invalid image format''
           | Inr img \<Rightarrow>
               (case img_size img of (width, height) \<Rightarrow>
                  if width < 50 \<or> height < 50 then Inl ''Error: Image too small for analysis''
                  else if width > 5000 \<or> height > 5000 then Inl ''Error: Image too large for analysis''
                  else Inr img)))"

text \<open>
  The body of the outer \<^verbatim>\<open>try\<close> block of \<^verbatim>\<open>makePrediction\<close>.  With a string for
  \<^verbatim>\<open>path\<close> no call of the block lets an exception out (\<^verbatim>\<open>mock_prediction\<close> and the image
  loading have handlers of their own), so every branch is \<open>Inr\<close>.
\<close>

definition makePrediction_try :: "runtime \<Rightarrow> world \<Rightarrow> string \<Rightarrow> string + string" where
  "makePrediction_try rt w path =
     (case files w path of
        None \<Rightarrow> Inr ''Error: Image file not found''
      | Some f \<Rightarrow>
          if \<not> HAS_PIL rt then
            (let filename = basename path;
                 filename_hash = \<bar>hash rt filename\<bar>
             in Inr (if classes \<noteq> [] then classes ! nat (filename_hash mod int (length classes))
                     else ''Tomato___healthy''))
          else
            (case load_image rt f of
               Inl sentinel \<Rightarrow> Inr sentinel
             | Inr img \<Rightarrow> Inr (mock_prediction rt img classes)))"

text \<open>\<^verbatim>\<open>makePrediction\<close>: the block under its handler, \<^verbatim>\<open>return "Error: Analysis failed"\<close>.\<close>

definition makePrediction :: "runtime \<Rightarrow> world \<Rightarrow> string \<Rightarrow> string" where
  "makePrediction rt w path =
     (case makePrediction_try rt w path of
        Inl e \<Rightarrow> ''Error: Analysis failed''
      | Inr prediction \<Rightarrow> prediction)"

text \<open>
  \<^verbatim>\<open>validate_image\<close> (lines 228-264).  It reads the format and size of the image as opened,
  without converting it.  The name \<^verbatim>\<open>Image\<close> is unbound when PIL is missing, which the
  handler turns into a message as well.
\<close>

definition name_error :: string where
  "name_error = ''name '' @ [char_of (39::nat)] @ ''Image'' @ [char_of (39::nat)] @ '' is not defined''"

definition validate_image :: "runtime \<Rightarrow> world \<Rightarrow> string \<Rightarrow> bool \<times> string" where
  "validate_image rt w img_path =
     (case files w img_path of
        None \<Rightarrow> (False, ''Image file not found'')
      | Some f \<Rightarrow>
          if file_size f > 16 * 1024 * 1024 then (False, ''Image file too large (max 16MB)'')
          else if \<not> HAS_PIL rt then (False, ''Image validation failed: '' @ name_error)
          else
            (case opened f of
               Inl e \<Rightarrow> (False, ''Image validation failed: '' @ e)
             | Inr img \<Rightarrow>
                 if img_format img \<notin> set [''JPEG'', ''PNG'', ''GIF'']
                 then (False, ''Unsupported image format'')
                 else
                   (case img_size img of (width, height) \<Rightarrow>
                      if width < 50 \<or> height < 50
                      then (False, ''Image too small (minimum 50x50 pixels)'')
                      else if width > 5000 \<or> height > 5000
                      then (False, ''Image too large (maximum 5000x5000 pixels)'')
                      else (True, ''Image is valid''))))"

section \<open>app.py\<close>

subsection \<open>String methods used by the formatter\<close>

text \<open>
  \<^verbatim>\<open>s.replace(old, new)\<close> for a non-empty \<^verbatim>\<open>old\<close>, as at both call sites: the occurrences
  are found from the left and do not overlap.
\<close>

function str_replace :: "string \<Rightarrow> string \<Rightarrow> string \<Rightarrow> string" where
  "str_replace old new s =
     (if old = [] \<or> s = [] then s
      else if startswith s old then new @ str_replace old new (drop (length old) s)
      else hd s # str_replace old new (tl s))"
  by pat_completeness auto
termination
  by (relation "measure (\<lambda>(old, new, s). length s)") auto

declare str_replace.simps [simp del]

text \<open>\<^verbatim>\<open>c.isspace()\<close> on the code points 0 to 255.\<close>

definition is_space :: "char \<Rightarrow> bool" where
  "is_space c = ((of_char c :: nat) \<in> {9, 10, 11, 12, 13, 28, 29, 30, 31, 32, 133, 160})"

text \<open>
  \<^verbatim>\<open>s.split()\<close>: the maximal runs of non-whitespace characters.  The first argument is the
  word being read.
\<close>

fun split_words :: "string \<Rightarrow> string \<Rightarrow> string list" where
  "split_words word [] = (if word = [] then [] else [word])"
| "split_words word (c # cs) =
     (if is_space c then (if word = [] then split_words [] cs else word # split_words [] cs)
      else split_words (word @ [c]) cs)"

definition split_ws :: "string \<Rightarrow> string list" where
  "split_ws s = split_words [] s"

text \<open>\<^verbatim>\<open>sep.join(words)\<close>\<close>

fun str_join :: "string \<Rightarrow> string list \<Rightarrow> string" where
  "str_join sep [] = []"
| "str_join sep [w] = w"
| "str_join sep (w # v # ws) = w @ sep @ str_join sep (v # ws)"

subsection \<open>Helpers of the routes\<close>

definition ALLOWED_EXTENSIONS :: "string set" where
  "ALLOWED_EXTENSIONS = {''png'', ''jpg'', ''jpeg'', ''gif''}"

text \<open>\<^verbatim>\<open>filename.rsplit('.', 1)[1]\<close>, for a name that contains a dot.\<close>

definition extension :: "string \<Rightarrow> string" where
  "extension filename = rev (takeWhile (\<lambda>c. c \<noteq> CHR ''.'') (rev filename))"

definition allowed_file :: "string \<Rightarrow> bool" where
  "allowed_file filename =
     (CHR ''.'' \<in> set filename \<and> lower (extension filename) \<in> ALLOWED_EXTENSIONS)"

text \<open>
  An upload (\<^verbatim>\<open>request.files['img']\<close>) and the request: the upload, the number of bytes of
  the body besides the file's content (the multipart framing and any other field), and what
  the handler reads from outside while serving it, \<^verbatim>\<open>datetime.now().strftime(...)\<close> and
  \<^verbatim>\<open>str(uuid.uuid4())\<close>.
\<close>

record upload =
  up_filename :: string
  up_content :: stored_file

record request =
  req_img :: "upload option"
  req_framing :: nat
  req_now :: string
  req_uuid4 :: string

text \<open>
  \<^verbatim>\<open>app.config['MAX_CONTENT_LENGTH']\<close> (lines 16-18) and the Content-Length of a request: the
  bytes of the uploaded file and of the rest of the body.
\<close>

definition MAX_CONTENT_LENGTH :: nat where
  "MAX_CONTENT_LENGTH = 16 * 1024 * 1024"

definition content_length :: "request \<Rightarrow> nat" where
  "content_length req =
     (case req_img req of
        None \<Rightarrow> req_framing req
      | Some img \<Rightarrow> file_size (up_content img) + req_framing req)"

definition generate_unique_filename :: "request \<Rightarrow> string \<Rightarrow> string" where
  "generate_unique_filename req filename =
     (let timestamp = req_now req;
          unique_id = take 8 (req_uuid4 req);
          file_extension = lower (extension filename)
      in ''plant_'' @ timestamp @ ''_'' @ unique_id @ ''.'' @ file_extension)"

text \<open>\<^verbatim>\<open>IMAGE_FOLDER = os.path.join(os.getcwd(), "static")\<close> and the join with a file name.\<close>

definition path_join :: "string \<Rightarrow> string \<Rightarrow> string" where
  "path_join a b =
     (if startswith b ''/'' then b
      else if a = [] \<or> last a = CHR ''/'' then a @ b
      else a @ ''/'' @ b)"

definition IMAGE_FOLDER :: "runtime \<Rightarrow> string" where
  "IMAGE_FOLDER rt = path_join (cwd rt) ''static''"

text \<open>
  \<^verbatim>\<open>os.makedirs(IMAGE_FOLDER, exist_ok=True); img.save(img_loc)\<close>: the upload is stored under
  the path, or an exception is raised when the disk cannot be written.
\<close>

definition save :: "world \<Rightarrow> string \<Rightarrow> stored_file \<Rightarrow> string + world" where
  "save w img_loc content =
     (if writable w then Inr (w\<lparr>files := (files w)(img_loc \<mapsto> content)\<rparr>)
      else Inl ''Permission denied'')"

subsection \<open>\<^verbatim>\<open>format_prediction\<close>\<close>

definition minor_words :: "string list" where
  "minor_words = [''and'', ''or'', ''the'', ''of'', ''in'', ''on'', ''at'', ''to'', ''for'', ''with'']"

text \<open>
  Lines 145-162.  The argument is \<open>None\<close> for Python's \<^verbatim>\<open>None\<close>; the loop appends to
  \<^verbatim>\<open>formatted_words\<close> word by word.  Through \<open>lower\<close> and \<open>capitalize\<close> the definition
  follows the code on ASCII strings.
\<close>

definition format_prediction :: "string option \<Rightarrow> string" where
  "format_prediction prediction =
     (case prediction of
        None \<Rightarrow> ''Unknown condition''
      | Some p \<Rightarrow>
          if p = [] then ''Unknown condition''
          else
            let formatted = str_replace ''_'' '' '' (str_replace ''___'' '' - '' p);
                words = split_ws formatted;
                formatted_words =
                  foldl (\<lambda>acc word. if lower word \<in> set minor_words then acc @ [lower word]
                                      else acc @ [capitalize word]) [] words
            in str_join '' '' formatted_words)"

subsection \<open>\<^verbatim>\<open>api_predict\<close>\<close>

text \<open>
  \<^verbatim>\<open>calculate_mock_confidence\<close>: \<^verbatim>\<open>round(85 + hash(prediction) % 15, 1)\<close> of an integer is
  that integer; Python's \<^verbatim>\<open>%\<close> with a positive modulus is non-negative, as \<open>mod\<close> is.
\<close>

definition calculate_mock_confidence :: "runtime \<Rightarrow> string \<Rightarrow> int" where
  "calculate_mock_confidence rt prediction =
     (if contains ''healthy'' (lower prediction) then 85 + hash rt prediction mod 15
      else 70 + hash rt prediction mod 25)"

datatype json = JBool bool | JStr string | JNum int

text \<open>A response: the JSON object, as its key-value pairs, and the HTTP status.\<close>

type_synonym response = "(string \<times> json) list \<times> nat"

text \<open>
  The body of the \<^verbatim>\<open>try\<close> block of \<^verbatim>\<open>api_predict\<close> (lines 95-123).  Its first statement
  reads \<^verbatim>\<open>request.files\<close>, which makes Werkzeug parse the body: for a Content-Length above
  \<^verbatim>\<open>MAX_CONTENT_LENGTH\<close> that raises \<^verbatim>\<open>RequestEntityTooLarge\<close>, an exception like any other
  for the handler of the route.
\<close>

definition api_predict_try :: "runtime \<Rightarrow> world \<Rightarrow> request \<Rightarrow> (string + response) \<times> world" where
  "api_predict_try rt w req =
     (if MAX_CONTENT_LENGTH < content_length req
      then (Inl ''413 Request Entity Too Large'', w)
      else
        (case req_img req of
           None \<Rightarrow>
             (Inr ([(''error'', JStr ''No file uploaded''), (''success'', JBool False)], 400), w)
         | Some img \<Rightarrow>
             if up_filename img = [] then
               (Inr ([(''error'', JStr ''No file selected''), (''success'', JBool False)], 400), w)
             else if \<not> allowed_file (up_filename img) then
               (Inr ([(''error'', JStr ''Invalid file type''), (''success'', JBool False)], 400), w)
             else
               let unique_filename = generate_unique_filename req (up_filename img);
                   img_loc = path_join (IMAGE_FOLDER rt) unique_filename
               in (case save w img_loc (up_content img) of
                     Inl e \<Rightarrow> (Inl e, w)
                   | Inr w' \<Rightarrow>
                       let prediction = makePrediction rt w' img_loc;
                           formatted_prediction = format_prediction (Some prediction)
                       in (Inr ([(''success'', JBool True),
                                 (''prediction'', JStr formatted_prediction),
                                 (''original_prediction'', JStr prediction),
                                 (''image_url'', JStr unique_filename),
                                 (''confidence'',
                                    JNum (calculate_mock_confidence rt prediction))],
                                200), w'))))"

text \<open>\<^verbatim>\<open>api_predict\<close>: the block under its handler, which answers 500.\<close>

definition api_predict :: "runtime \<Rightarrow> world \<Rightarrow> request \<Rightarrow> response \<times> world" where
  "api_predict rt w req =
     (case api_predict_try rt w req of
        (Inl e, w') \<Rightarrow> (([(''error'', JStr ''Analysis failed''), (''success'', JBool False)], 500), w')
      | (Inr resp, w') \<Rightarrow> (resp, w'))"

text \<open>The fields of a response that the claims speak of.\<close>

definition success_flag :: "response \<Rightarrow> bool" where
  "success_flag resp = (map_of (fst resp) ''success'' = Some (JBool True))"

definition raw_label :: "response \<Rightarrow> string option" where
  "raw_label resp =
     (case map_of (fst resp) ''original_prediction'' of Some (JStr s) \<Rightarrow> Some s | _ \<Rightarrow> None)"

section \<open>Example inputs\<close>

text \<open>
  A process whose string hash is keyed by \<open>key\<close> (a stand-in for CPython's keyed hash: the
  value depends on the key and on the text), with a \<^verbatim>\<open>convert\<close> that returns a new image
  object without the \<^verbatim>\<open>filename\<close> attribute, as PIL's does.
\<close>

definition keyed_hash :: "int \<Rightarrow> string \<Rightarrow> int" where
  "keyed_hash key s = key + int (sum_list (map of_char s))"

definition demo_runtime :: "bool \<Rightarrow> bool \<Rightarrow> int \<Rightarrow> runtime" where
  "demo_runtime pil numpy key =
     \<lparr>HAS_PIL = pil, HAS_NUMPY = numpy, hash = keyed_hash key,
      convert_RGB = (\<lambda>img. Inr (img\<lparr>img_filename := None\<rparr>)),
      str_mean = (\<lambda>(r, g, b). str_nat (nat \<lfloor>r\<rfloor>) @ '' '' @ str_nat (nat \<lfloor>g\<rfloor>) @ '' ''
                                  @ str_nat (nat \<lfloor>b\<rfloor>)),
      str_std = (\<lambda>px. ''std''),
      cwd = ''/app''\<rparr>"

text \<open>An image of one colour, a file holding an image, and a disk holding one file.\<close>

definition solid_image :: "nat \<Rightarrow> nat \<Rightarrow> pixel \<Rightarrow> image" where
  "solid_image width height p =
     \<lparr>img_format = ''PNG'', img_size = (width, height), img_filename = Some ''leaf.png'',
      img_pixels = Inr (replicate (width * height) p)\<rparr>"

definition image_file :: "image \<Rightarrow> stored_file" where
  "image_file img = \<lparr>file_size = 1000, opened = Inr img\<rparr>"

definition one_file :: "string \<Rightarrow> stored_file \<Rightarrow> world" where
  "one_file path f = \<lparr>files = (\<lambda>p. if p = path then Some f else None), writable = True\<rparr>"

definition green_leaf :: image where
  "green_leaf = solid_image 50 50 (0, 255, 0)"

definition unreadable_leaf :: image where
  "unreadable_leaf = green_leaf\<lparr>img_pixels := Inl ''broken data stream''\<rparr>"

definition tiny_leaf :: image where
  "tiny_leaf = solid_image 49 49 (0, 255, 0)"

text \<open>A file whose bytes are no image, whatever its name says.\<close>

definition text_file :: stored_file where
  "text_file = \<lparr>file_size = 12, opened = Inl ''cannot identify image file''\<rparr>"

text \<open>
  An upload named notes.jpg that holds no image, an empty disk, a BMP image under a PNG name
  and an image file of 20 MiB.
\<close>

definition notes_request :: request where
  "notes_request =
     \<lparr>req_img = Some \<lparr>up_filename = ''notes.jpg'', up_content = text_file\<rparr>,
      req_framing = 200,
      req_now = ''20240101_120000'', req_uuid4 = ''0f8fad5b-d9cb-469f-a165-70867728950e''\<rparr>"

definition empty_disk :: world where
  "empty_disk = \<lparr>files = (\<lambda>p. None), writable = True\<rparr>"

definition bmp_leaf :: image where
  "bmp_leaf = (solid_image 100 100 (200, 30, 30))\<lparr>img_format := ''BMP''\<rparr>"

definition huge_file :: stored_file where
  "huge_file = \<lparr>file_size = 20 * 1024 * 1024, opened = Inr (solid_image 100 100 (200, 30, 30))\<rparr>"

text \<open>The BMP image uploaded under the name leaf.png.\<close>

definition bmp_request :: request where
  "bmp_request =
     \<lparr>req_img = Some \<lparr>up_filename = ''leaf.png'', up_content = image_file bmp_leaf\<rparr>,
      req_framing = 200,
      req_now = ''20240101_120000'', req_uuid4 = ''0f8fad5b-d9cb-469f-a165-70867728950e''\<rparr>"

text \<open>An upload of 20 MiB under an allowed name.\<close>

definition huge_request :: request where
  "huge_request =
     \<lparr>req_img = Some \<lparr>up_filename = ''leaf.png'', up_content = huge_file\<rparr>,
      req_framing = 200,
      req_now = ''20240101_120000'', req_uuid4 = ''0f8fad5b-d9cb-469f-a165-70867728950e''\<rparr>"

text \<open>Two more images of one colour: the boundary case of the green test, and a red leaf.\<close>

definition olive_leaf :: image where
  "olive_leaf = solid_image 50 50 (10, 12, 0)"

definition red_leaf :: image where
  "red_leaf = solid_image 100 100 (200, 30, 30)"

section \<open>The failure conditions in the words of the specification\<close>

text \<open>Decoding fails: the file does not open as an image, or cannot be converted to RGB.\<close>

definition decode_failed :: "runtime \<Rightarrow> stored_file \<Rightarrow> bool" where
  "decode_failed rt f =
     (case opened f of
        Inl e \<Rightarrow> True
      | Inr img0 \<Rightarrow> (case convert_RGB rt img0 of Inl e \<Rightarrow> True | Inr img \<Rightarrow> False))"

text \<open>Width or height below 50 or above 5000 pixels.\<close>

definition out_of_range :: "nat \<times> nat \<Rightarrow> bool" where
  "out_of_range dims =
     (case dims of (width, height) \<Rightarrow> width < 50 \<or> height < 50 \<or> 5000 < width \<or> 5000 < height)"

definition dimensions_out_of_range :: "runtime \<Rightarrow> stored_file \<Rightarrow> bool" where
  "dimensions_out_of_range rt f =
     (case opened f of
        Inl e \<Rightarrow> False
      | Inr img0 \<Rightarrow>
          (case convert_RGB rt img0 of Inl e \<Rightarrow> False | Inr img \<Rightarrow> out_of_range (img_size img)))"

text \<open>
  The string hashed in the NumPy-less branch of \<^verbatim>\<open>mock_prediction\<close> (line 154):
  \<^verbatim>\<open>img.filename if hasattr(img, 'filename') else str(width * height)\<close>.
\<close>

definition hash_key :: "image \<Rightarrow> string" where
  "hash_key img =
     (case img_size img of (width, height) \<Rightarrow>
        (case img_filename img of Some name \<Rightarrow> name | None \<Rightarrow> str_nat (width * height)))"

section \<open>The channel means in the words of the specification\<close>

text \<open>The mean of a channel as a number: the sum of its bytes over their count.\<close>

definition exact_mean :: "nat list \<Rightarrow> rat" where
  "exact_mean xs = of_nat (sum_list xs) / of_nat (length xs)"

section \<open>The formatter in the words of the specification\<close>

text \<open>Replace the first \<^verbatim>\<open>___\<close> with \<^verbatim>\<open>" - "\<close>, and replace every one of them.\<close>

fun replace_first_separator :: "string \<Rightarrow> string" where
  "replace_first_separator (a # b # c # rest) =
     (if a = CHR ''_'' \<and> b = CHR ''_'' \<and> c = CHR ''_'' then '' - '' @ rest
      else a # replace_first_separator (b # c # rest))"
| "replace_first_separator s = s"

fun replace_every_separator :: "string \<Rightarrow> string" where
  "replace_every_separator (a # b # c # rest) =
     (if a = CHR ''_'' \<and> b = CHR ''_'' \<and> c = CHR ''_'' then '' - '' @ replace_every_separator rest
      else a # replace_every_separator (b # c # rest))"
| "replace_every_separator s = s"

text \<open>Underscores become spaces.\<close>

definition underscores_to_spaces :: "string \<Rightarrow> string" where
  "underscores_to_spaces s = map (\<lambda>c. if c = CHR ''_'' then CHR '' '' else c) s"

text \<open>
  A word is lower-cased if it is one of the minor words, and capitalised otherwise, wherever
  it stands.
\<close>

definition display_word :: "string \<Rightarrow> string" where
  "display_word word = (if lower word \<in> set minor_words then lower word else capitalize word)"

text \<open>
  The display string as the specification words it (only the first separator becomes a
  dash), and with every separator replaced.  Words are the pieces between whitespace; they
  are joined by single spaces.
\<close>

definition ascii_input :: "string option \<Rightarrow> bool" where
  "ascii_input raw = (case raw of None \<Rightarrow> True | Some s \<Rightarrow> is_ascii s)"

definition display_first :: "string option \<Rightarrow> string" where
  "display_first raw =
     (case raw of
        None \<Rightarrow> ''Unknown condition''
      | Some s \<Rightarrow>
          if s = [] then ''Unknown condition''
          else str_join '' ''
                 (map display_word (split_ws (underscores_to_spaces (replace_first_separator s)))))"

definition display_every :: "string option \<Rightarrow> string" where
  "display_every raw =
     (case raw of
        None \<Rightarrow> ''Unknown condition''
      | Some s \<Rightarrow>
          if s = [] then ''Unknown condition''
          else str_join '' ''
                 (map display_word (split_ws (underscores_to_spaces (replace_every_separator s)))))"

section \<open>Facts about the taxonomy and the selection\<close>

lemma classes_nonempty: "classes \<noteq> []"
  by (simp add: classes_def)

lemma length_classes: "length classes = 38"
  by (simp add: classes_def)

lemma tomato_healthy_in_classes: "''Tomato___healthy'' \<in> set classes"
  by (simp add: classes_def)

lemma is_error_tomato: "\<not> is_error ''Tomato___healthy''"
  by (simp add: is_error_def)

lemma is_healthy_tomato: "is_healthy ''Tomato___healthy''"
  by (simp add: is_healthy_def lower_def lower_char_def is_upper_def)

lemma pick_mem: "xs \<noteq> [] \<Longrightarrow> pick xs h \<in> set xs"
proof -
  assume "xs \<noteq> []"
  then have pos: "0 < int (length xs)" by simp
  then have "\<bar>h\<bar> mod int (length xs) < int (length xs)" by (rule pos_mod_bound)
  moreover have "0 \<le> \<bar>h\<bar> mod int (length xs)" using pos by simp
  ultimately have "nat (\<bar>h\<bar> mod int (length xs)) < length xs" by linarith
  then show ?thesis unfolding pick_def by (rule nth_mem)
qed

lemma pick_filter:
  "filter P xs \<noteq> [] \<Longrightarrow> pick (filter P xs) h \<in> set xs \<and> P (pick (filter P xs) h)"
  using pick_mem[of "filter P xs" h] by auto

lemma fallback_mem: "cls \<noteq> [] \<Longrightarrow> fallback cls \<in> set cls"
  by (cases cls) (simp_all add: fallback_def)

lemma mock_prediction_try_mem:
  assumes "mock_prediction_try rt img cls = Inr label" "cls \<noteq> []"
  shows "label \<in> set cls"
  using assms pick_filter[of is_healthy cls] pick_filter[of "\<lambda>c. \<not> is_healthy c" cls]
    fallback_mem[of cls]
  by (auto simp: mock_prediction_try_def Let_def split: prod.splits sum.splits if_splits)

lemma mock_prediction_mem: "mock_prediction rt img classes \<in> set classes"
proof (cases "mock_prediction_try rt img classes")
  case (Inl e)
  then show ?thesis by (simp add: mock_prediction_def tomato_healthy_in_classes)
next
  case (Inr label)
  then show ?thesis
    using mock_prediction_try_mem[OF Inr classes_nonempty] by (simp add: mock_prediction_def)
qed

lemma load_image_valid:
  assumes "opened f = Inr img0" "convert_RGB rt img0 = Inr img" "img_size img = (width, height)"
    "50 \<le> width" "width \<le> 5000" "50 \<le> height" "height \<le> 5000"
  shows "load_image rt f = Inr img"
  using assms by (simp add: load_image_def)

lemma no_pil_label:
  assumes "files w path = Some f" "\<not> HAS_PIL rt"
  shows "makePrediction rt w path = pick classes (hash rt (basename path))"
  using assms classes_nonempty
  by (simp add: makePrediction_def makePrediction_try_def pick_def Let_def)

lemma classes_not_error: "c \<in> set classes \<Longrightarrow> \<not> is_error c"
  by (auto simp: classes_def is_error_def)

lemma healthy_classes:
  "filter is_healthy classes =
   [''Apple___healthy'', ''Blueberry___healthy'', ''Cherry_(including_sour)___healthy'',
    ''Corn_(maize)___healthy'', ''Grape___healthy'', ''Peach___healthy'',
    ''Pepper,_bell___healthy'', ''Potato___healthy'', ''Raspberry___healthy'',
    ''Soybean___healthy'', ''Strawberry___healthy'', ''Tomato___healthy'']"
  by code_simp

lemma disease_classes_length: "length (filter (\<lambda>c. \<not> is_healthy c) classes) = 26"
  by code_simp

lemma healthy_nonempty: "filter is_healthy classes \<noteq> []"
  by (simp add: healthy_classes)

lemma disease_nonempty: "filter (\<lambda>c. \<not> is_healthy c) classes \<noteq> []"
  using disease_classes_length by fastforce

lemma load_image_error: "load_image rt f = Inl s \<Longrightarrow> is_error s"
  by (auto simp: load_image_def is_error_def split: sum.splits prod.splits if_splits)

lemma load_image_Inr_iff:
  "(\<exists>img. load_image rt f = Inr img)
   \<longleftrightarrow> \<not> decode_failed rt f \<and> \<not> dimensions_out_of_range rt f"
  by (auto simp: load_image_def decode_failed_def dimensions_out_of_range_def out_of_range_def
      split: sum.splits prod.splits)

lemma makePrediction_loaded:
  assumes "HAS_PIL rt" "files w path = Some f" "load_image rt f = Inr img"
  shows "makePrediction rt w path = mock_prediction rt img classes"
  using assms by (simp add: makePrediction_def makePrediction_try_def)

lemma mock_prediction_green:
  assumes "HAS_NUMPY rt" "img_pixels img = Inr px" "very_green (np_mean px)"
  shows "mock_prediction rt img classes
         = pick (filter is_healthy classes) (hash rt (str_mean rt (np_mean px)))"
  using assms healthy_nonempty
  by (simp add: mock_prediction_def mock_prediction_try_def Let_def split: prod.splits)

lemma mock_prediction_not_green:
  assumes "HAS_NUMPY rt" "img_pixels img = Inr px" "\<not> very_green (np_mean px)"
  shows "mock_prediction rt img classes
         = pick (filter (\<lambda>c. \<not> is_healthy c) classes)
             (hash rt (str_mean rt (np_mean px) @ str_std rt px))"
  using assms disease_nonempty
  by (simp add: mock_prediction_def mock_prediction_try_def Let_def split: prod.splits)

subsection \<open>The label follows the hash\<close>

text \<open>
  The taxonomy has no duplicates, so two processes give one file the same label only if
  their hashes of the key agree modulo the length of the list that is indexed.
\<close>

lemma distinct_classes: "distinct classes"
  by code_simp

lemma pick_eq_iff:
  assumes "distinct xs" "xs \<noteq> []"
  shows "pick xs h = pick xs k \<longleftrightarrow> \<bar>h\<bar> mod int (length xs) = \<bar>k\<bar> mod int (length xs)"
proof -
  have pos: "0 < int (length xs)" using assms(2) by simp
  have b: "0 \<le> \<bar>i\<bar> mod int (length xs) \<and> \<bar>i\<bar> mod int (length xs) < int (length xs)" for i
    using pos by simp
  have "pick xs h = pick xs k
        \<longleftrightarrow> nat (\<bar>h\<bar> mod int (length xs)) = nat (\<bar>k\<bar> mod int (length xs))"
    unfolding pick_def using assms(1) b[of h] b[of k]
    by (intro nth_eq_iff_index_eq) auto
  also have "\<dots> \<longleftrightarrow> \<bar>h\<bar> mod int (length xs) = \<bar>k\<bar> mod int (length xs)"
    using b[of h] b[of k] by (simp add: eq_nat_nat_iff)
  finally show ?thesis .
qed

lemma hash_decides_label:
  assumes "files w path = Some f" "\<not> HAS_PIL rt" "\<not> HAS_PIL rt'"
  shows "makePrediction rt w path = makePrediction rt' w path
         \<longleftrightarrow> \<bar>hash rt (basename path)\<bar> mod 38 = \<bar>hash rt' (basename path)\<bar> mod 38"
  using pick_eq_iff[OF distinct_classes classes_nonempty]
  by (simp add: no_pil_label[OF assms(1,2)] no_pil_label[OF assms(1,3)] length_classes)

lemma hash_decides_green_label:
  assumes "HAS_NUMPY rt" "HAS_NUMPY rt'" "img_pixels img = Inr px" "very_green (np_mean px)"
  shows "mock_prediction rt img classes = mock_prediction rt' img classes
         \<longleftrightarrow> \<bar>hash rt (str_mean rt (np_mean px))\<bar> mod 12
             = \<bar>hash rt' (str_mean rt' (np_mean px))\<bar> mod 12"
proof -
  have d: "distinct (filter is_healthy classes)" using distinct_classes by (rule distinct_filter)
  have l: "int (length (filter is_healthy classes)) = 12" by (simp add: healthy_classes)
  show ?thesis
    using pick_eq_iff[OF d healthy_nonempty]
    by (simp add: mock_prediction_green[OF assms(1,3,4)] mock_prediction_green[OF assms(2,3,4)] l)
qed

subsection \<open>Images of one colour\<close>

lemma sum_list_replicate_nat: "sum_list (replicate n (x::nat)) = n * x"
  by (induction n) simp_all

lemma np_mean_replicate:
  "np_mean (replicate n (r, g, b))
   = (f64_div (of_nat (n * unat r)) (of_nat n), f64_div (of_nat (n * unat g)) (of_nat n),
      f64_div (of_nat (n * unat b)) (of_nat n))"
  by (simp add: np_mean_def f64_mean_def red_def green_def blue_def sum_list_replicate_nat)

lemma f64_examples:
  "f64_div 0 2500 = 0" "f64_div 637500 2500 = 255" "f64_mul 0 f64_1_2 = 0"
  "f64_div 25000 2500 = 10" "f64_div 30000 2500 = 12" "f64_mul 10 f64_1_2 = 12"
  by code_simp+

lemma green_leaf_mean: "np_mean (replicate (50 * 50) (0, 255, 0)) = (0, 255, 0)"
  by (simp add: np_mean_replicate f64_examples)

lemma green_leaf_load:
  "load_image (demo_runtime True numpy key) (image_file green_leaf)
   = Inr (green_leaf\<lparr>img_filename := None\<rparr>)"
  by (simp add: load_image_def image_file_def demo_runtime_def green_leaf_def solid_image_def)

lemma green_leaf_label:
  "makePrediction (demo_runtime True True key)
     (one_file ''static/leaf.png'' (image_file green_leaf)) ''static/leaf.png''
   = pick (filter is_healthy classes) (keyed_hash key ''0 255 0'')"
proof -
  let ?rt = "demo_runtime True True key"
  let ?img = "green_leaf\<lparr>img_filename := None\<rparr>"
  have s: "str_nat 0 = ''0''" "str_nat 255 = ''255''" by code_simp+
  have p: "img_pixels ?img = Inr (replicate (50 * 50) (0, 255, 0))"
    by (simp add: green_leaf_def solid_image_def)
  have v: "very_green (np_mean (replicate (50 * 50) (0, 255, 0)))"
    unfolding green_leaf_mean by (simp add: very_green_def f64_examples)
  have hp: "HAS_PIL ?rt" and hn: "HAS_NUMPY ?rt" by (simp_all add: demo_runtime_def)
  have fw: "files (one_file ''static/leaf.png'' (image_file green_leaf)) ''static/leaf.png''
        = Some (image_file green_leaf)"
    by (simp add: one_file_def)
  have "makePrediction ?rt (one_file ''static/leaf.png'' (image_file green_leaf)) ''static/leaf.png''
        = mock_prediction ?rt ?img classes"
    using hp fw green_leaf_load by (rule makePrediction_loaded)
  also have "\<dots> = pick (filter is_healthy classes)
        (hash ?rt (str_mean ?rt (np_mean (replicate (50 * 50) (0, 255, 0)))))"
    using hn p v by (rule mock_prediction_green)
  also have "\<dots> = pick (filter is_healthy classes) (keyed_hash key ''0 255 0'')"
    unfolding green_leaf_mean by (simp add: demo_runtime_def s)
  finally show ?thesis .
qed

lemma green_leaf_picks:
  "pick (filter is_healthy classes) (keyed_hash 0 ''0 255 0'') = ''Grape___healthy''"
  "pick (filter is_healthy classes) (keyed_hash 1 ''0 255 0'') = ''Peach___healthy''"
  by code_simp+

lemma dimension_sentinels_not_labels:
  "''Error: Image too small for analysis'' \<notin> set classes"
  "''Error: Image too large for analysis'' \<notin> set classes"
proof -
  show "''Error: Image too small for analysis'' \<notin> set classes"
    using classes_not_error[of "''Error: Image too small for analysis''"]
    by (auto simp: is_error_def)
  show "''Error: Image too large for analysis'' \<notin> set classes"
    using classes_not_error[of "''Error: Image too large for analysis''"]
    by (auto simp: is_error_def)
qed

lemma no_pil_leaf:
  "makePrediction (demo_runtime False numpy key) (one_file ''static/leaf.png'' f) ''static/leaf.png''
   = pick classes (keyed_hash key ''leaf.png'')"
proof -
  have "makePrediction (demo_runtime False numpy key) (one_file ''static/leaf.png'' f) ''static/leaf.png''
        = pick classes (hash (demo_runtime False numpy key) (basename ''static/leaf.png''))"
    by (rule no_pil_label[of _ _ f]) (simp_all add: one_file_def demo_runtime_def)
  then show ?thesis by (simp add: demo_runtime_def basename_def)
qed

lemma leaf_picks:
  "pick classes (keyed_hash 0 ''leaf.png'') = ''Pepper,_bell___healthy''"
  "pick classes (keyed_hash 1 ''leaf.png'') = ''Potato___Early_blight''"
  by code_simp+

lemma leaf_hash: "keyed_hash 1 ''leaf.png'' = 780"
  by code_simp

lemma potato_not_healthy: "\<not> is_healthy ''Potato___Early_blight''"
  by code_simp

subsection \<open>The API route and the validator\<close>

lemma validate_image_oversized:
  assumes "files w img_path = Some f" "16 * 1024 * 1024 < file_size f"
  shows "validate_image rt w img_path = (False, ''Image file too large (max 16MB)'')"
  using assms by (simp add: validate_image_def)

lemma validate_image_unsupported:
  assumes "files w img_path = Some f" "file_size f \<le> 16 * 1024 * 1024" "HAS_PIL rt"
    "opened f = Inr img" "img_format img \<notin> {''JPEG'', ''PNG'', ''GIF''}"
  shows "validate_image rt w img_path = (False, ''Unsupported image format'')"
  using assms by (simp add: validate_image_def)

lemma validated_label:
  assumes "HAS_PIL rt" "files w path = Some f" "load_image rt f = Inr img"
  shows "makePrediction rt w path \<in> set classes"
  using makePrediction_loaded[OF assms] mock_prediction_mem by simp

lemma oversized_upload_rejected:
  assumes "MAX_CONTENT_LENGTH < content_length req"
  shows "api_predict rt w req
         = (([(''error'', JStr ''Analysis failed''), (''success'', JBool False)], 500), w)"
  using assms by (simp add: api_predict_def api_predict_try_def)

lemma huge_request_rejected:
  "fst (api_predict rt w huge_request)
   = ([(''error'', JStr ''Analysis failed''), (''success'', JBool False)], 500)"
proof -
  have "MAX_CONTENT_LENGTH < content_length huge_request"
    by (simp add: MAX_CONTENT_LENGTH_def content_length_def huge_request_def huge_file_def)
  then show ?thesis by (simp add: oversized_upload_rejected)
qed

lemma api_predict_success:
  assumes "req_img req = Some img" "up_filename img \<noteq> []" "allowed_file (up_filename img)"
    "writable w" "content_length req \<le> MAX_CONTENT_LENGTH"
  shows "fst (api_predict rt w req) =
    (let unique_filename = generate_unique_filename req (up_filename img);
         img_loc = path_join (IMAGE_FOLDER rt) unique_filename;
         prediction = makePrediction rt (w\<lparr>files := (files w)(img_loc \<mapsto> up_content img)\<rparr>) img_loc
     in ([(''success'', JBool True),
          (''prediction'', JStr (format_prediction (Some prediction))),
          (''original_prediction'', JStr prediction),
          (''image_url'', JStr unique_filename),
          (''confidence'', JNum (calculate_mock_confidence rt prediction))], 200))"
  using assms by (simp add: api_predict_def api_predict_try_def save_def Let_def)

lemma makePrediction_rejected:
  assumes "HAS_PIL rt" "files w path = Some f" "load_image rt f = Inl sentinel"
  shows "makePrediction rt w path = sentinel"
  using assms by (simp add: makePrediction_def makePrediction_try_def)

lemma notes_response:
  "success_flag (fst (api_predict (demo_runtime True True 0) empty_disk notes_request))"
  "raw_label (fst (api_predict (demo_runtime True True 0) empty_disk notes_request))
   = Some ''Error: Invalid image format''"
proof -
  let ?rt = "demo_runtime True True 0"
  let ?up = "\<lparr>up_filename = ''notes.jpg'', up_content = text_file\<rparr>"
  define loc where
    "loc = path_join (IMAGE_FOLDER ?rt) (generate_unique_filename notes_request ''notes.jpg'')"
  define w' where "w' = empty_disk\<lparr>files := (files empty_disk)(loc \<mapsto> text_file)\<rparr>"
  have a: "allowed_file ''notes.jpg''" by code_simp
  have r: "fst (api_predict ?rt empty_disk notes_request) =
     ([(''success'', JBool True),
       (''prediction'', JStr (format_prediction (Some (makePrediction ?rt w' loc)))),
       (''original_prediction'', JStr (makePrediction ?rt w' loc)),
       (''image_url'', JStr (generate_unique_filename notes_request ''notes.jpg'')),
       (''confidence'', JNum (calculate_mock_confidence ?rt (makePrediction ?rt w' loc)))], 200)"
    using api_predict_success[of notes_request ?up empty_disk ?rt] a
    by (simp add: notes_request_def empty_disk_def Let_def loc_def w'_def content_length_def
        MAX_CONTENT_LENGTH_def text_file_def)
  have pil: "HAS_PIL ?rt" by (simp add: demo_runtime_def)
  have f: "files w' loc = Some text_file" by (simp add: w'_def)
  have l: "load_image ?rt text_file = Inl ''Error: Invalid image format''"
    by (simp add: load_image_def text_file_def)
  have m: "makePrediction ?rt w' loc = ''Error: Invalid image format''"
    using pil f l by (rule makePrediction_rejected)
  show "success_flag (fst (api_predict ?rt empty_disk notes_request))"
    unfolding r by (simp add: success_flag_def)
  show "raw_label (fst (api_predict ?rt empty_disk notes_request))
        = Some ''Error: Invalid image format''"
    unfolding r m by (simp add: raw_label_def)
qed

lemma bmp_upload_accepted:
  "success_flag (fst (api_predict (demo_runtime True True 0) empty_disk bmp_request))
   \<and> (\<exists>label \<in> set classes.
        raw_label (fst (api_predict (demo_runtime True True 0) empty_disk bmp_request)) = Some label)"
proof -
  let ?rt = "demo_runtime True True 0"
  let ?up = "\<lparr>up_filename = ''leaf.png'', up_content = image_file bmp_leaf\<rparr>"
  define loc where "loc = path_join (IMAGE_FOLDER ?rt) (generate_unique_filename bmp_request ''leaf.png'')"
  define w' where "w' = empty_disk\<lparr>files := (files empty_disk)(loc \<mapsto> image_file bmp_leaf)\<rparr>"
  have a: "allowed_file ''leaf.png''" by code_simp
  have r: "fst (api_predict ?rt empty_disk bmp_request) =
     ([(''success'', JBool True),
       (''prediction'', JStr (format_prediction (Some (makePrediction ?rt w' loc)))),
       (''original_prediction'', JStr (makePrediction ?rt w' loc)),
       (''image_url'', JStr (generate_unique_filename bmp_request ''leaf.png'')),
       (''confidence'', JNum (calculate_mock_confidence ?rt (makePrediction ?rt w' loc)))], 200)"
    using api_predict_success[of bmp_request ?up empty_disk ?rt] a
    by (simp add: bmp_request_def empty_disk_def Let_def loc_def w'_def content_length_def
        MAX_CONTENT_LENGTH_def image_file_def)
  have pil: "HAS_PIL ?rt" by (simp add: demo_runtime_def)
  have f: "files w' loc = Some (image_file bmp_leaf)" by (simp add: w'_def)
  have l: "load_image ?rt (image_file bmp_leaf) = Inr (bmp_leaf\<lparr>img_filename := None\<rparr>)"
    by (simp add: load_image_def image_file_def demo_runtime_def bmp_leaf_def solid_image_def)
  have "makePrediction ?rt w' loc \<in> set classes" using pil f l by (rule validated_label)
  then show ?thesis unfolding r by (simp add: success_flag_def raw_label_def)
qed

subsection \<open>The formatter\<close>

lemma str_replace_short:
  "str_replace ''___'' '' - '' [] = []"
  "str_replace ''___'' '' - '' [a] = [a]"
  "str_replace ''___'' '' - '' [a, b] = [a, b]"
proof -
  show e: "str_replace ''___'' '' - '' [] = []"
    by (subst str_replace.simps) simp
  show o: "str_replace ''___'' '' - '' [x] = [x]" for x
    by (subst str_replace.simps) (simp add: e)
  show "str_replace ''___'' '' - '' [a, b] = [a, b]"
    by (subst str_replace.simps) (simp add: o)
qed

lemma str_replace_separator: "str_replace ''___'' '' - '' s = replace_every_separator s"
proof (induction s rule: replace_every_separator.induct)
  case (1 a b c rest)
  then show ?case
    by (subst str_replace.simps) auto
qed (simp_all add: str_replace_short)

lemma str_replace_underscore: "str_replace ''_'' '' '' s = underscores_to_spaces s"
proof (induction s)
  case Nil
  show ?case by (subst str_replace.simps) (simp add: underscores_to_spaces_def)
next
  case (Cons c cs)
  then show ?case
    by (subst str_replace.simps) (auto simp: underscores_to_spaces_def)
qed

lemma append_loop:
  "foldl (\<lambda>acc word. if P word then acc @ [f word] else acc @ [g word]) acc ws
   = acc @ map (\<lambda>word. if P word then f word else g word) ws"
  by (induction ws arbitrary: acc) simp_all

lemma format_prediction_examples:
  "format_prediction (Some ''a___b___c'') = ''A - B - C''"
  "display_first (Some ''a___b___c'') = ''A - B C''"
  "format_prediction (Some ''Tomato___Spider_mites Two-spotted_spider_mite'')
   = ''Tomato - Spider Mites Two-spotted Spider Mite''"
  "format_prediction (Some ''Corn_(maize)___Cercospora_leaf_spot Gray_leaf_spot'')
   = ''Corn (maize) - Cercospora Leaf Spot Gray Leaf Spot''"
  "format_prediction (Some ''rust_OF_the_leaf'') = ''Rust of the Leaf''"
  by code_simp+

section \<open>Rounding in float64\<close>

text \<open>
  Rounding to nearest moves a number by at most half a unit in the last place, that is by
  at most \<open>2\<^sup>-\<^sup>5\<^sup>3\<close> of its magnitude.
\<close>

lemma round_half_even_error: "\<bar>of_int (round_half_even y) - y\<bar> \<le> 1 / 2"
proof -
  have "of_int \<lfloor>y\<rfloor> \<le> y" "y < of_int \<lfloor>y\<rfloor> + 1" by linarith+
  then show ?thesis
    by (auto simp: round_half_even_def Let_def)
qed

lemma f64_exponent_lower:
  assumes "0 < x"
  shows "2 powi (f64_exponent x) \<le> x"
proof -
  obtain p q where pq: "quotient_of x = (p, q)" by (cases "quotient_of x")
  have q: "0 < q" using pq quotient_of_denom_pos by blast
  have x: "x = of_int p / of_int q" using pq quotient_of_div by blast
  have p: "0 < p" using assms q x by (simp add: zero_less_divide_iff)
  define d where "d = bitlen p - bitlen q"
  show ?thesis
  proof (cases "2 powi d \<le> x")
    case True
    then show ?thesis by (simp add: f64_exponent_def pq d_def)
  next
    case False
    have bp: "2 ^ nat (bitlen p - 1) \<le> p" using bitlen_bounds[OF p] by simp
    have bq: "q < 2 ^ nat (bitlen q)" using bitlen_bounds[OF q] by simp
    have bp1: "1 \<le> bitlen p" using p by (simp add: bitlen_alt_def)
    have bq0: "0 \<le> bitlen q" by (rule bitlen_nonneg)
    have P: "(2::rat) powi (bitlen p - 1) \<le> of_int p"
    proof -
      have "(of_int (2 ^ nat (bitlen p - 1)) :: rat) \<le> of_int p" using bp by (simp only: of_int_le_iff)
      then show ?thesis using bp1 by (simp add: power_int_def)
    qed
    have Q: "(of_int q :: rat) \<le> 2 powi (bitlen q)"
    proof -
      have "(of_int q :: rat) \<le> of_int (2 ^ nat (bitlen q))" using bq by (simp only: of_int_le_iff)
      then show ?thesis using bq0 by (simp add: power_int_def)
    qed
    have "(2::rat) powi (d - 1) = 2 powi (bitlen p - 1) / 2 powi (bitlen q)"
      by (simp add: d_def power_int_diff)
    also have "\<dots> \<le> of_int p / of_int q"
      using P Q q p by (intro frac_le) auto
    finally have "2 powi (d - 1) \<le> x" using x by simp
    with False show ?thesis by (simp add: f64_exponent_def pq d_def)
  qed
qed

lemma f64_round_error: "\<bar>f64_round x - x\<bar> \<le> \<bar>x\<bar> / 2 ^ 53"
proof (cases "x = 0")
  case True
  then show ?thesis by (simp add: f64_round_def)
next
  case False
  define e where "e = f64_exponent \<bar>x\<bar> - 52"
  define y where "y = x / 2 powi e"
  have pos: "(0::rat) < 2 powi e" by simp
  have fx: "f64_round x = of_int (round_half_even y) * 2 powi e"
    using False by (simp add: f64_round_def e_def y_def Let_def)
  have xy: "y * 2 powi e = x" by (simp add: y_def)
  have "(of_int (round_half_even y) - y) * 2 powi e
        = of_int (round_half_even y) * 2 powi e - y * 2 powi e"
    by (simp add: algebra_simps)
  then have "f64_round x - x = (of_int (round_half_even y) - y) * 2 powi e"
    by (simp only: fx xy)
  then have "\<bar>f64_round x - x\<bar> = \<bar>of_int (round_half_even y) - y\<bar> * 2 powi e"
    by (simp add: abs_mult)
  also have "\<dots> \<le> (1 / 2) * 2 powi e"
    using round_half_even_error[of y] pos by (intro mult_right_mono) auto
  also have "\<dots> = 2 powi (f64_exponent \<bar>x\<bar>) / 2 ^ 53"
    by (simp add: e_def power_int_diff)
  also have "\<dots> \<le> \<bar>x\<bar> / 2 ^ 53"
    using f64_exponent_lower[of "\<bar>x\<bar>"] False by (intro divide_right_mono) auto
  finally show ?thesis .
qed


lemma f64_1_2_value: "f64_1_2 = 5404319552844595 / 4503599627370496"
  unfolding f64_1_2_def by code_simp

lemma f64_round_upper: "0 \<le> x \<Longrightarrow> x \<le> b \<Longrightarrow> f64_round x \<le> x + b / 2 ^ 53"
proof -
  assume a: "0 \<le> x" "x \<le> b"
  have "\<bar>f64_round x - x\<bar> \<le> \<bar>x\<bar> / 2 ^ 53" by (rule f64_round_error)
  moreover have "\<bar>x\<bar> / 2 ^ 53 \<le> b / 2 ^ 53" using a by (intro divide_right_mono) auto
  ultimately show ?thesis by linarith
qed

lemma f64_round_lower: "0 \<le> x \<Longrightarrow> x \<le> b \<Longrightarrow> x - b / 2 ^ 53 \<le> f64_round x"
proof -
  assume a: "0 \<le> x" "x \<le> b"
  have "\<bar>f64_round x - x\<bar> \<le> \<bar>x\<bar> / 2 ^ 53" by (rule f64_round_error)
  moreover have "\<bar>x\<bar> / 2 ^ 53 \<le> b / 2 ^ 53" using a by (intro divide_right_mono) auto
  ultimately show ?thesis by linarith
qed

lemma f64_round_nonneg: "0 \<le> x \<Longrightarrow> 0 \<le> f64_round x"
proof -
  assume a: "0 \<le> x"
  have "\<bar>f64_round x - x\<bar> \<le> \<bar>x\<bar> / 2 ^ 53" by (rule f64_round_error)
  moreover have "\<bar>x\<bar> / 2 ^ 53 \<le> x" using a by (simp add: field_simps)
  ultimately show ?thesis by linarith
qed

text \<open>The scaled mean \<open>fl (fl a * 1.2)\<close> stays within \<open>10\<^sup>-\<^sup>1\<^sup>2\<close> of \<open>1.2 a\<close> for \<open>a\<close> in [0, 255].\<close>

lemma scaled_upper:
  assumes "0 \<le> a" "a \<le> 255"
  shows "f64_mul (f64_round a) f64_1_2 \<le> 6 / 5 * a + 613 / 2 ^ 53"
proof -
  define fa where "fa = f64_round a"
  have fa0: "0 \<le> fa" unfolding fa_def using assms by (intro f64_round_nonneg)
  have fa1: "fa \<le> a + 255 / 2 ^ 53" unfolding fa_def using assms by (intro f64_round_upper)
  have c: "f64_1_2 \<le> 6 / 5" "0 \<le> f64_1_2" by (simp_all add: f64_1_2_value)
  have p0: "0 \<le> fa * f64_1_2" using fa0 c by simp
  have "fa * f64_1_2 \<le> fa * (6 / 5)" using fa0 c by (intro mult_left_mono)
  also have "\<dots> \<le> (a + 255 / 2 ^ 53) * (6 / 5)" using fa1 by (intro mult_right_mono) auto
  finally have p1: "fa * f64_1_2 \<le> 6 / 5 * a + 306 / 2 ^ 53" by (simp add: algebra_simps)
  have p2: "fa * f64_1_2 \<le> 307" using p1 assms by simp
  have "f64_round (fa * f64_1_2) \<le> fa * f64_1_2 + 307 / 2 ^ 53"
    using p0 p2 by (rule f64_round_upper)
  then show ?thesis unfolding f64_mul_def fa_def[symmetric] using p1 by simp
qed

lemma scaled_lower:
  assumes "0 \<le> a" "a \<le> 255"
  shows "6 / 5 * a - 1000 / 2 ^ 53 \<le> f64_mul (f64_round a) f64_1_2"
proof -
  define fa where "fa = f64_round a"
  have fa0: "0 \<le> fa" unfolding fa_def using assms by (intro f64_round_nonneg)
  have fa1: "fa \<le> a + 255 / 2 ^ 53" unfolding fa_def using assms by (intro f64_round_upper)
  have fa2: "a - 255 / 2 ^ 53 \<le> fa" unfolding fa_def using assms by (intro f64_round_lower)
  have c: "f64_1_2 \<le> 6 / 5" "0 \<le> f64_1_2" "6 / 5 - 1 / 2 ^ 53 \<le> f64_1_2"
    by (simp_all add: f64_1_2_value)
  have p0: "0 \<le> fa * f64_1_2" using fa0 c by simp
  have "fa * f64_1_2 \<le> fa * (6 / 5)" using fa0 c by (intro mult_left_mono)
  also have "\<dots> \<le> (a + 255 / 2 ^ 53) * (6 / 5)" using fa1 by (intro mult_right_mono) auto
  finally have p1: "fa * f64_1_2 \<le> 6 / 5 * a + 306 / 2 ^ 53" by (simp add: algebra_simps)
  have p2: "fa * f64_1_2 \<le> 307" using p1 assms by simp
  have "fa * (6 / 5 - 1 / 2 ^ 53) \<le> fa * f64_1_2" using fa0 c by (intro mult_left_mono)
  moreover have "fa * (1 / 2 ^ 53) \<le> 256 * (1 / 2 ^ 53)"
    using fa1 assms by (intro mult_right_mono) auto
  ultimately have "fa * (6 / 5) - 256 / 2 ^ 53 \<le> fa * f64_1_2" by (simp add: algebra_simps)
  moreover have "(a - 255 / 2 ^ 53) * (6 / 5) \<le> fa * (6 / 5)" using fa2 by (intro mult_right_mono) auto
  ultimately have p3: "6 / 5 * a - 562 / 2 ^ 53 \<le> fa * f64_1_2" by (simp add: algebra_simps)
  have "fa * f64_1_2 - 307 / 2 ^ 53 \<le> f64_round (fa * f64_1_2)"
    using p0 p2 by (rule f64_round_lower)
  then show ?thesis unfolding f64_mul_def fa_def[symmetric] using p3 by simp
qed

lemma mean_gap:
  fixes s t n :: nat
  assumes "0 < n" "n \<le> 25000000" "6 * s < 5 * t"
  shows "6 / 5 * (of_nat s / of_nat n) + 1 / 125000000 \<le> (of_nat t / of_nat n :: rat)"
proof -
  have n0: "(0::rat) < of_nat n" using assms by simp
  have "6 * s + 1 \<le> 5 * t" using assms by simp
  then have "(of_nat (6 * s + 1) :: rat) \<le> of_nat (5 * t)" by (simp only: of_nat_le_iff)
  then have "(6 * of_nat s + 1 :: rat) \<le> 5 * of_nat t" by simp
  then have "(6 * of_nat s + 1) / (5 * of_nat n) \<le> (5 * of_nat t) / (5 * of_nat n :: rat)"
    using n0 by (intro divide_right_mono) auto
  then have "6 / 5 * (of_nat s / of_nat n) + 1 / (5 * of_nat n) \<le> (of_nat t / of_nat n :: rat)"
    using n0 by (simp add: add_divide_distrib)
  moreover have "(1::rat) / 125000000 \<le> 1 / (5 * of_nat n)"
  proof -
    have "(of_nat n :: rat) \<le> of_nat 25000000" using assms by (simp only: of_nat_le_iff)
    then have "(5 * of_nat n :: rat) \<le> 125000000" by simp
    then show ?thesis using n0 by (intro divide_left_mono) auto
  qed
  ultimately show ?thesis by linarith
qed

lemma mean_gap_below:
  fixes s t n :: nat
  assumes "0 < n" "n \<le> 25000000" "5 * t < 6 * s"
  shows "(of_nat t / of_nat n :: rat) + 1 / 125000000 \<le> 6 / 5 * (of_nat s / of_nat n)"
proof -
  have n0: "(0::rat) < of_nat n" using assms by simp
  have "5 * t + 1 \<le> 6 * s" using assms by simp
  then have "(of_nat (5 * t + 1) :: rat) \<le> of_nat (6 * s)" by (simp only: of_nat_le_iff)
  then have "(5 * of_nat t + 1 :: rat) \<le> 6 * of_nat s" by simp
  then have "(5 * of_nat t + 1) / (5 * of_nat n) \<le> (6 * of_nat s) / (5 * of_nat n :: rat)"
    using n0 by (intro divide_right_mono) auto
  then have "(of_nat t / of_nat n :: rat) + 1 / (5 * of_nat n) \<le> 6 / 5 * (of_nat s / of_nat n)"
    using n0 by (simp add: add_divide_distrib)
  moreover have "(1::rat) / 125000000 \<le> 1 / (5 * of_nat n)"
  proof -
    have "(of_nat n :: rat) \<le> of_nat 25000000" using assms by (simp only: of_nat_le_iff)
    then have "(5 * of_nat n :: rat) \<le> 125000000" by simp
    then show ?thesis using n0 by (intro divide_left_mono) auto
  qed
  ultimately show ?thesis by linarith
qed

lemma mean_bounds:
  fixes s n :: nat
  assumes "0 < n" "s \<le> 255 * n"
  shows "(0::rat) \<le> of_nat s / of_nat n" "(of_nat s / of_nat n :: rat) \<le> 255"
proof -
  show "(0::rat) \<le> of_nat s / of_nat n" by simp
  have "(of_nat s :: rat) \<le> of_nat (255 * n)" using assms by (simp only: of_nat_le_iff)
  then show "(of_nat s / of_nat n :: rat) \<le> 255" using assms by (simp add: divide_le_eq)
qed

lemma green_exceeds:
  fixes s t n :: nat
  assumes "0 < n" "n \<le> 25000000" "s \<le> 255 * n" "t \<le> 255 * n" "6 * s < 5 * t"
  shows "f64_mul (f64_div (of_nat s) (of_nat n)) f64_1_2 < f64_div (of_nat t) (of_nat n)"
proof -
  let ?a = "of_nat s / of_nat n :: rat" and ?g = "of_nat t / of_nat n :: rat"
  have "f64_mul (f64_round ?a) f64_1_2 \<le> 6 / 5 * ?a + 613 / 2 ^ 53"
    using mean_bounds[OF assms(1,3)] by (rule scaled_upper)
  moreover have "?g - 255 / 2 ^ 53 \<le> f64_round ?g"
    using mean_bounds[OF assms(1,4)] by (rule f64_round_lower)
  moreover have "6 / 5 * ?a + 1 / 125000000 \<le> ?g" using assms(1,2,5) by (rule mean_gap)
  ultimately show ?thesis unfolding f64_div_def by simp
qed

lemma green_below:
  fixes s t n :: nat
  assumes "0 < n" "n \<le> 25000000" "s \<le> 255 * n" "t \<le> 255 * n" "5 * t < 6 * s"
  shows "\<not> f64_mul (f64_div (of_nat s) (of_nat n)) f64_1_2 < f64_div (of_nat t) (of_nat n)"
proof -
  let ?a = "of_nat s / of_nat n :: rat" and ?g = "of_nat t / of_nat n :: rat"
  have "6 / 5 * ?a - 1000 / 2 ^ 53 \<le> f64_mul (f64_round ?a) f64_1_2"
    using mean_bounds[OF assms(1,3)] by (rule scaled_lower)
  moreover have "f64_round ?g \<le> ?g + 255 / 2 ^ 53"
    using mean_bounds[OF assms(1,4)] by (rule f64_round_upper)
  moreover have "?g + 1 / 125000000 \<le> 6 / 5 * ?a" using assms(1,2,5) by (rule mean_gap_below)
  ultimately show ?thesis unfolding f64_div_def by simp
qed


lemma byte_sum_bound:
  "sum_list (red px) \<le> 255 * length px"
  "sum_list (green px) \<le> 255 * length px"
  "sum_list (blue px) \<le> 255 * length px"
proof -
  have b: "unat (x :: 8 word) \<le> 255" for x
    using unsigned_less[of x, where ?'a = nat] by simp
  show "sum_list (red px) \<le> 255 * length px"
    by (induction px) (use b in \<open>auto simp: red_def intro: add_mono\<close>)
  show "sum_list (green px) \<le> 255 * length px"
    by (induction px) (use b in \<open>auto simp: green_def intro: add_mono\<close>)
  show "sum_list (blue px) \<le> 255 * length px"
    by (induction px) (use b in \<open>auto simp: blue_def intro: add_mono\<close>)
qed

lemma channel_lengths: "length (red px) = length px" "length (green px) = length px"
  "length (blue px) = length px"
  by (simp_all add: red_def green_def blue_def)

lemma exact_mean_less:
  assumes "length xs = length ys" "0 < length xs"
  shows "6 / 5 * exact_mean xs < exact_mean ys \<longleftrightarrow> 6 * sum_list xs < 5 * sum_list ys"
    and "exact_mean ys < 6 / 5 * exact_mean xs \<longleftrightarrow> 5 * sum_list ys < 6 * sum_list xs"
proof -
  have n: "(0::rat) < of_nat (length ys)" using assms by simp
  have "6 / 5 * exact_mean xs < exact_mean ys
        \<longleftrightarrow> (6 * of_nat (sum_list xs) :: rat) < 5 * of_nat (sum_list ys)"
    using n assms(1) by (simp add: exact_mean_def field_simps)
  also have "\<dots> \<longleftrightarrow> (of_nat (6 * sum_list xs) :: rat) < of_nat (5 * sum_list ys)" by simp
  also have "\<dots> \<longleftrightarrow> 6 * sum_list xs < 5 * sum_list ys" by (simp only: of_nat_less_iff)
  finally show "6 / 5 * exact_mean xs < exact_mean ys \<longleftrightarrow> 6 * sum_list xs < 5 * sum_list ys" .
  have "exact_mean ys < 6 / 5 * exact_mean xs
        \<longleftrightarrow> (5 * of_nat (sum_list ys) :: rat) < 6 * of_nat (sum_list xs)"
    using n assms(1) by (simp add: exact_mean_def field_simps)
  also have "\<dots> \<longleftrightarrow> (of_nat (5 * sum_list ys) :: rat) < of_nat (6 * sum_list xs)" by simp
  also have "\<dots> \<longleftrightarrow> 5 * sum_list ys < 6 * sum_list xs" by (simp only: of_nat_less_iff)
  finally show "exact_mean ys < 6 / 5 * exact_mean xs \<longleftrightarrow> 5 * sum_list ys < 6 * sum_list xs" .
qed

lemma very_green_iff:
  "very_green (np_mean px)
   \<longleftrightarrow> f64_mul (f64_mean (red px)) f64_1_2 < f64_mean (green px)
     \<and> f64_mul (f64_mean (blue px)) f64_1_2 < f64_mean (green px)"
  by (simp add: very_green_def np_mean_def)

lemma very_green_exact:
  assumes "0 < length px" "length px \<le> 25000000"
  shows "6 / 5 * exact_mean (red px) < exact_mean (green px)
         \<and> 6 / 5 * exact_mean (blue px) < exact_mean (green px) \<Longrightarrow> very_green (np_mean px)"
    and "exact_mean (green px) < 6 / 5 * exact_mean (red px)
         \<or> exact_mean (green px) < 6 / 5 * exact_mean (blue px) \<Longrightarrow> \<not> very_green (np_mean px)"
proof -
  let ?n = "length px"
  note b = byte_sum_bound[of px]
  have lr: "length (red px) = length (green px)" "0 < length (red px)"
    and lb: "length (blue px) = length (green px)" "0 < length (blue px)"
    using assms(1) by (simp_all add: channel_lengths)
  {
    assume "6 / 5 * exact_mean (red px) < exact_mean (green px)
          \<and> 6 / 5 * exact_mean (blue px) < exact_mean (green px)"
    then have r: "6 * sum_list (red px) < 5 * sum_list (green px)"
      and bl: "6 * sum_list (blue px) < 5 * sum_list (green px)"
      using exact_mean_less(1)[OF lr] exact_mean_less(1)[OF lb] by simp_all
    show "very_green (np_mean px)"
      unfolding very_green_iff f64_mean_def channel_lengths
      using green_exceeds[OF assms b(1) b(2) r] green_exceeds[OF assms b(3) b(2) bl] by simp
  }
  {
    assume "exact_mean (green px) < 6 / 5 * exact_mean (red px)
          \<or> exact_mean (green px) < 6 / 5 * exact_mean (blue px)"
    then have "5 * sum_list (green px) < 6 * sum_list (red px)
             \<or> 5 * sum_list (green px) < 6 * sum_list (blue px)"
      using exact_mean_less(2)[OF lr] exact_mean_less(2)[OF lb] by simp
    then show "\<not> very_green (np_mean px)"
      unfolding very_green_iff f64_mean_def channel_lengths
      using green_below[OF assms b(1) b(2)] green_below[OF assms b(3) b(2)] by auto
  }
qed

lemma exact_mean_replicate:
  "exact_mean (red (replicate n (r, g, b))) = of_nat (n * unat r) / of_nat n"
  "exact_mean (green (replicate n (r, g, b))) = of_nat (n * unat g) / of_nat n"
  "exact_mean (blue (replicate n (r, g, b))) = of_nat (n * unat b) / of_nat n"
  by (simp_all add: exact_mean_def red_def green_def blue_def sum_list_replicate_nat)

section \<open>The claims\<close>

text \<open>
  C3.  For every valid input, that is an existing file that opens and converts to an image
  whose width and height lie between 50 and 5000, the label returned by \<^verbatim>\<open>makePrediction\<close>
  is a member of the taxonomy, which has 38 elements.  This holds whatever the process looks
  like (with or without PIL and NumPy, for every hash function).
\<close>

theorem taxonomy_closure:
  assumes "files w path = Some f" "opened f = Inr img0" "convert_RGB rt img0 = Inr img"
    "img_size img = (width, height)" "50 \<le> width" "width \<le> 5000" "50 \<le> height" "height \<le> 5000"
  shows "makePrediction rt w path \<in> set classes \<and> length classes = 38"
proof (cases "HAS_PIL rt")
  case True
  have "load_image rt f = Inr img" using assms(2-8) by (rule load_image_valid)
  then have "makePrediction rt w path = mock_prediction rt img classes"
    using True assms(1) by (simp add: makePrediction_def makePrediction_try_def)
  then show ?thesis by (simp add: mock_prediction_mem length_classes)
next
  case False
  then show ?thesis
    using no_pil_label[OF assms(1)] pick_mem[OF classes_nonempty] by (simp add: length_classes)
qed

theorem taxonomy_closure_witness:
  "files (one_file ''static/leaf.png'' (image_file green_leaf)) ''static/leaf.png''
     = Some (image_file green_leaf)
   \<and> opened (image_file green_leaf) = Inr green_leaf
   \<and> convert_RGB (demo_runtime True True 0) green_leaf = Inr (green_leaf\<lparr>img_filename := None\<rparr>)
   \<and> img_size (green_leaf\<lparr>img_filename := None\<rparr>) = (50, 50)
   \<and> makePrediction (demo_runtime True True 0)
        (one_file ''static/leaf.png'' (image_file green_leaf)) ''static/leaf.png'' \<in> set classes
   \<and> length classes = 38"
proof -
  let ?w = "one_file ''static/leaf.png'' (image_file green_leaf)"
  let ?rt = "demo_runtime True True 0"
  let ?img = "green_leaf\<lparr>img_filename := None\<rparr>"
  have h1: "files ?w ''static/leaf.png'' = Some (image_file green_leaf)"
    by (simp add: one_file_def)
  have h2: "opened (image_file green_leaf) = Inr green_leaf"
    by (simp add: image_file_def)
  have h3: "convert_RGB ?rt green_leaf = Inr ?img"
    by (simp add: demo_runtime_def)
  have h4: "img_size ?img = (50, 50)"
    by (simp add: green_leaf_def solid_image_def)
  show ?thesis
    using taxonomy_closure[OF h1 h2 h3 h4] h1 h2 h3 h4 by simp
qed

text \<open>
  C10.  When an exception leaves the \<^verbatim>\<open>try\<close> block of \<^verbatim>\<open>mock_prediction\<close> for an image
  that passed the checks of \<^verbatim>\<open>makePrediction\<close>, the handler returns the taxonomy member
  \<^verbatim>\<open>Tomato___healthy\<close>: the caller of \<^verbatim>\<open>makePrediction\<close> receives a label of the healthy
  subset that carries no \<^verbatim>\<open>Error:\<close> prefix.
\<close>

theorem mock_prediction_exception:
  assumes "files w path = Some f" "HAS_PIL rt" "load_image rt f = Inr img"
    "mock_prediction_try rt img classes = Inl e"
  shows "mock_prediction rt img classes = ''Tomato___healthy''
       \<and> makePrediction rt w path = ''Tomato___healthy''
       \<and> \<not> is_error (makePrediction rt w path)
       \<and> makePrediction rt w path \<in> set (filter is_healthy classes)"
proof -
  have m: "mock_prediction rt img classes = ''Tomato___healthy''"
    using assms(4) by (simp add: mock_prediction_def)
  have "makePrediction rt w path = mock_prediction rt img classes"
    using assms(1-3) by (simp add: makePrediction_def makePrediction_try_def)
  then show ?thesis
    using m is_error_tomato is_healthy_tomato tomato_healthy_in_classes by simp
qed

theorem mock_prediction_exception_witness:
  "files (one_file ''static/leaf.png'' (image_file unreadable_leaf)) ''static/leaf.png''
     = Some (image_file unreadable_leaf)
   \<and> HAS_PIL (demo_runtime True True 0)
   \<and> load_image (demo_runtime True True 0) (image_file unreadable_leaf)
       = Inr (unreadable_leaf\<lparr>img_filename := None\<rparr>)
   \<and> mock_prediction_try (demo_runtime True True 0) (unreadable_leaf\<lparr>img_filename := None\<rparr>) classes
       = Inl ''broken data stream''
   \<and> makePrediction (demo_runtime True True 0)
        (one_file ''static/leaf.png'' (image_file unreadable_leaf)) ''static/leaf.png''
       = ''Tomato___healthy''"
proof -
  let ?w = "one_file ''static/leaf.png'' (image_file unreadable_leaf)"
  let ?rt = "demo_runtime True True 0"
  let ?img = "unreadable_leaf\<lparr>img_filename := None\<rparr>"
  have h1: "files ?w ''static/leaf.png'' = Some (image_file unreadable_leaf)"
    by (simp add: one_file_def)
  have h2: "HAS_PIL ?rt" by (simp add: demo_runtime_def)
  have h3: "load_image ?rt (image_file unreadable_leaf) = Inr ?img"
    by (simp add: load_image_def image_file_def demo_runtime_def unreadable_leaf_def
        green_leaf_def solid_image_def)
  have h4: "mock_prediction_try ?rt ?img classes = Inl ''broken data stream''"
    by (simp add: mock_prediction_try_def demo_runtime_def unreadable_leaf_def
        green_leaf_def solid_image_def)
  show ?thesis
    using mock_prediction_exception[OF h1 h2 h3 h4] h1 h2 h3 h4 by simp
qed

text \<open>
  C1.  Determinism across process restarts.  The label is selected by Python's built-in
  \<^verbatim>\<open>hash\<close> of a string, which belongs to the process.  For one and the same file (a 50 by 50
  image of pure green, stored as static/leaf.png) two processes whose string hashes are keyed
  differently return different labels.
\<close>

theorem restart_changes_label:
  "makePrediction (demo_runtime True True 0)
     (one_file ''static/leaf.png'' (image_file green_leaf)) ''static/leaf.png''
   \<noteq> makePrediction (demo_runtime True True 1)
     (one_file ''static/leaf.png'' (image_file green_leaf)) ''static/leaf.png''"
  by (simp add: green_leaf_label green_leaf_picks)

text \<open>
  C2.  \<^verbatim>\<open>makePrediction\<close> returns a string with the prefix \<^verbatim>\<open>Error:\<close> exactly when the file
  is not found or, PIL being available, decoding fails or the dimensions are out of range.
  Without PIL the file is neither decoded nor measured, and only a missing file is an error.
  No exception leaves the outer \<^verbatim>\<open>try\<close> block: it always returns the value.
\<close>

theorem error_prefix_isolation:
  "(is_error (makePrediction rt w path) \<longleftrightarrow>
      (case files w path of
         None \<Rightarrow> True
       | Some f \<Rightarrow> HAS_PIL rt \<and> (decode_failed rt f \<or> dimensions_out_of_range rt f)))
   \<and> makePrediction_try rt w path = Inr (makePrediction rt w path)"
proof (cases "files w path")
  case None
  then show ?thesis
    by (simp add: makePrediction_def makePrediction_try_def is_error_def)
next
  case (Some f)
  show ?thesis
  proof (cases "HAS_PIL rt")
    case False
    have "makePrediction rt w path \<in> set classes"
      using no_pil_label[OF Some False] pick_mem[OF classes_nonempty] by simp
    then have "\<not> is_error (makePrediction rt w path)" by (rule classes_not_error)
    moreover have "makePrediction_try rt w path = Inr (makePrediction rt w path)"
      using Some False by (simp add: makePrediction_def makePrediction_try_def Let_def)
    ultimately show ?thesis using Some False by simp
  next
    case True
    show ?thesis
    proof (cases "load_image rt f")
      case (Inl s)
      then have "is_error s" by (rule load_image_error)
      moreover have "decode_failed rt f \<or> dimensions_out_of_range rt f"
        using Inl load_image_Inr_iff[of rt f] by auto
      ultimately show ?thesis
        using Some True Inl by (simp add: makePrediction_def makePrediction_try_def)
    next
      case (Inr img)
      then have "\<not> decode_failed rt f \<and> \<not> dimensions_out_of_range rt f"
        using load_image_Inr_iff[of rt f] by blast
      moreover have "\<not> is_error (mock_prediction rt img classes)"
        using mock_prediction_mem by (rule classes_not_error)
      ultimately show ?thesis
        using Some True Inr by (simp add: makePrediction_def makePrediction_try_def)
    qed
  qed
qed

text \<open>
  The claim as written fails without PIL: a file of non-image bytes gets a taxonomy label.
\<close>

theorem error_prefix_isolation_counterexample:
  "files (one_file ''static/notes.jpg'' text_file) ''static/notes.jpg'' = Some text_file
   \<and> decode_failed (demo_runtime False True 0) text_file
   \<and> \<not> is_error (makePrediction (demo_runtime False True 0)
           (one_file ''static/notes.jpg'' text_file) ''static/notes.jpg'')"
  by (simp add: one_file_def text_file_def decode_failed_def makePrediction_def
      makePrediction_try_def demo_runtime_def keyed_hash_def basename_def classes_def is_error_def)

text \<open>
  C7.  With PIL available, for every image that opens and converts, \<^verbatim>\<open>makePrediction\<close>
  returns one of the two dimension sentinels (too small, too large) exactly when the width or
  the height is below 50 or above 5000; such a result carries the \<^verbatim>\<open>Error:\<close> prefix and is
  no taxonomy label.  A 49 by 49 image is the witness.
\<close>

theorem dimension_check:
  assumes "HAS_PIL rt" "files w path = Some f" "opened f = Inr img0" "convert_RGB rt img0 = Inr img"
  shows "(makePrediction rt w path \<in> {''Error: Image too small for analysis'',
                                       ''Error: Image too large for analysis''}
          \<longleftrightarrow> out_of_range (img_size img))
       \<and> (out_of_range (img_size img)
          \<longrightarrow> is_error (makePrediction rt w path) \<and> makePrediction rt w path \<notin> set classes)"
proof (cases "out_of_range (img_size img)")
  case True
  then have "makePrediction rt w path \<in> {''Error: Image too small for analysis'',
                                          ''Error: Image too large for analysis''}"
    using assms
    by (auto simp: makePrediction_def makePrediction_try_def load_image_def out_of_range_def
        split: prod.splits)
  then show ?thesis
    using True dimension_sentinels_not_labels by (auto simp: is_error_def)
next
  case False
  then have "load_image rt f = Inr img"
    using assms(3,4) by (auto simp: load_image_def out_of_range_def split: prod.splits)
  then have "makePrediction rt w path = mock_prediction rt img classes"
    using assms(1,2) by (rule makePrediction_loaded[rotated 2])
  then have "makePrediction rt w path \<in> set classes" by (simp add: mock_prediction_mem)
  then show ?thesis using False dimension_sentinels_not_labels by auto
qed

theorem dimension_check_witness:
  "HAS_PIL (demo_runtime True True 0)
   \<and> files (one_file ''static/leaf.png'' (image_file tiny_leaf)) ''static/leaf.png''
       = Some (image_file tiny_leaf)
   \<and> opened (image_file tiny_leaf) = Inr tiny_leaf
   \<and> convert_RGB (demo_runtime True True 0) tiny_leaf = Inr (tiny_leaf\<lparr>img_filename := None\<rparr>)
   \<and> img_size (tiny_leaf\<lparr>img_filename := None\<rparr>) = (49, 49)
   \<and> out_of_range (49, 49)
   \<and> is_error (makePrediction (demo_runtime True True 0)
         (one_file ''static/leaf.png'' (image_file tiny_leaf)) ''static/leaf.png'')
   \<and> makePrediction (demo_runtime True True 0)
         (one_file ''static/leaf.png'' (image_file tiny_leaf)) ''static/leaf.png'' \<notin> set classes"
proof -
  let ?rt = "demo_runtime True True 0"
  let ?w = "one_file ''static/leaf.png'' (image_file tiny_leaf)"
  let ?img = "tiny_leaf\<lparr>img_filename := None\<rparr>"
  have h1: "HAS_PIL ?rt" by (simp add: demo_runtime_def)
  have h2: "files ?w ''static/leaf.png'' = Some (image_file tiny_leaf)" by (simp add: one_file_def)
  have h3: "opened (image_file tiny_leaf) = Inr tiny_leaf" by (simp add: image_file_def)
  have h4: "convert_RGB ?rt tiny_leaf = Inr ?img" by (simp add: demo_runtime_def)
  have h5: "img_size ?img = (49, 49)" by (simp add: tiny_leaf_def solid_image_def)
  have h6: "out_of_range (49, 49)" by (simp add: out_of_range_def)
  show ?thesis
    using dimension_check[OF h1 h2 h3 h4] h1 h2 h3 h4 h5 h6 by simp
qed

text \<open>
  Without PIL the dimensions are never looked at: the 49 by 49 image gets a label.
\<close>

theorem dimension_check_counterexample:
  "opened (image_file tiny_leaf) = Inr tiny_leaf
   \<and> convert_RGB (demo_runtime False True 0) tiny_leaf = Inr (tiny_leaf\<lparr>img_filename := None\<rparr>)
   \<and> out_of_range (img_size (tiny_leaf\<lparr>img_filename := None\<rparr>))
   \<and> makePrediction (demo_runtime False True 0)
         (one_file ''static/leaf.png'' (image_file tiny_leaf)) ''static/leaf.png''
       = ''Pepper,_bell___healthy''"
proof -
  have "opened (image_file tiny_leaf) = Inr tiny_leaf" by (simp add: image_file_def)
  moreover have "convert_RGB (demo_runtime False True 0) tiny_leaf
      = Inr (tiny_leaf\<lparr>img_filename := None\<rparr>)"
    by (simp add: demo_runtime_def)
  moreover have "out_of_range (img_size (tiny_leaf\<lparr>img_filename := None\<rparr>))"
    by (simp add: tiny_leaf_def solid_image_def out_of_range_def)
  moreover have "makePrediction (demo_runtime False True 0)
         (one_file ''static/leaf.png'' (image_file tiny_leaf)) ''static/leaf.png''
       = ''Pepper,_bell___healthy''"
    by (simp only: no_pil_leaf leaf_picks)
  ultimately show ?thesis by (intro conjI)
qed

text \<open>
  C9.  The two degraded paths.  In \<^verbatim>\<open>mock_prediction\<close> without NumPy the label comes from
  the healthy subset exactly when the absolute hash of the key is divisible by 4, and from the
  diseased subset otherwise; the key is the image's \<^verbatim>\<open>filename\<close> attribute if it has one and
  the decimal text of width times height if not.  In \<^verbatim>\<open>makePrediction\<close> without PIL there is
  no split: the label is the entry of the whole taxonomy at the absolute hash of the base
  name modulo 38.
\<close>

theorem degraded_selection:
  "(\<not> HAS_NUMPY rt \<longrightarrow>
      mock_prediction rt img classes
        = (if \<bar>hash rt (hash_key img)\<bar> mod 4 = 0
           then pick (filter is_healthy classes) \<bar>hash rt (hash_key img)\<bar>
           else pick (filter (\<lambda>c. \<not> is_healthy c) classes) \<bar>hash rt (hash_key img)\<bar>)
      \<and> (is_healthy (mock_prediction rt img classes) \<longleftrightarrow> \<bar>hash rt (hash_key img)\<bar> mod 4 = 0))
   \<and> (\<not> HAS_PIL rt \<and> files w path = Some f \<longrightarrow>
      makePrediction rt w path = classes ! nat (\<bar>hash rt (basename path)\<bar> mod 38))"
proof -
  have a: "mock_prediction rt img classes
        = (if \<bar>hash rt (hash_key img)\<bar> mod 4 = 0
           then pick (filter is_healthy classes) \<bar>hash rt (hash_key img)\<bar>
           else pick (filter (\<lambda>c. \<not> is_healthy c) classes) \<bar>hash rt (hash_key img)\<bar>)"
    if "\<not> HAS_NUMPY rt"
  proof (cases "img_size img")
    case (Pair width height)
    then show ?thesis
      using that healthy_nonempty disease_nonempty
      by (simp add: mock_prediction_def mock_prediction_try_def hash_key_def Let_def)
  qed
  have b: "is_healthy (mock_prediction rt img classes) \<longleftrightarrow> \<bar>hash rt (hash_key img)\<bar> mod 4 = 0"
    if "\<not> HAS_NUMPY rt"
    using a[OF that] pick_filter[OF healthy_nonempty] pick_filter[OF disease_nonempty] by auto
  have c: "makePrediction rt w path = classes ! nat (\<bar>hash rt (basename path)\<bar> mod 38)"
    if "\<not> HAS_PIL rt" "files w path = Some f"
    using no_pil_label[OF that(2,1)] by (simp add: pick_def length_classes)
  show ?thesis
  proof (intro conjI impI)
    assume n: "\<not> HAS_NUMPY rt"
    show "mock_prediction rt img classes
        = (if \<bar>hash rt (hash_key img)\<bar> mod 4 = 0
           then pick (filter is_healthy classes) \<bar>hash rt (hash_key img)\<bar>
           else pick (filter (\<lambda>c. \<not> is_healthy c) classes) \<bar>hash rt (hash_key img)\<bar>)"
      by (rule a[OF n])
    show "is_healthy (mock_prediction rt img classes) \<longleftrightarrow> \<bar>hash rt (hash_key img)\<bar> mod 4 = 0"
      by (rule b[OF n])
  next
    assume "\<not> HAS_PIL rt \<and> files w path = Some f"
    then show "makePrediction rt w path = classes ! nat (\<bar>hash rt (basename path)\<bar> mod 38)"
      using c by blast
  qed
qed


theorem degraded_selection_witness:
  "\<not> HAS_NUMPY (demo_runtime False False 1) \<and> \<not> HAS_PIL (demo_runtime False False 1)
   \<and> files (one_file ''static/leaf.png'' (image_file green_leaf)) ''static/leaf.png''
       = Some (image_file green_leaf)
   \<and> (is_healthy (mock_prediction (demo_runtime False False 1) green_leaf classes)
        \<longleftrightarrow> \<bar>hash (demo_runtime False False 1) (hash_key green_leaf)\<bar> mod 4 = 0)
   \<and> makePrediction (demo_runtime False False 1)
        (one_file ''static/leaf.png'' (image_file green_leaf)) ''static/leaf.png''
       = classes ! nat (\<bar>hash (demo_runtime False False 1) (basename ''static/leaf.png'')\<bar> mod 38)"
proof -
  let ?rt = "demo_runtime False False 1"
  let ?w = "one_file ''static/leaf.png'' (image_file green_leaf)"
  have h1: "\<not> HAS_NUMPY ?rt" and h2: "\<not> HAS_PIL ?rt" by (simp_all add: demo_runtime_def)
  have h3: "files ?w ''static/leaf.png'' = Some (image_file green_leaf)" by (simp add: one_file_def)
  note inst = degraded_selection[of ?rt green_leaf ?w "''static/leaf.png''" "image_file green_leaf"]
  note a = inst[THEN conjunct1, THEN mp, OF h1, THEN conjunct2]
  note b = inst[THEN conjunct2, THEN mp, OF conjI[OF h2 h3]]
  show ?thesis
    using h1 h2 h3 a b by (intro conjI)
qed

text \<open>
  The claim as written fails in the PIL-less path: the hash of the file name selects the
  25% branch (it is divisible by 4), yet the label is a diseased class.
\<close>

theorem degraded_selection_counterexample:
  "\<not> HAS_PIL (demo_runtime False False 1)
   \<and> \<bar>hash (demo_runtime False False 1) (basename ''static/leaf.png'')\<bar> mod 4 = 0
   \<and> \<not> is_healthy (makePrediction (demo_runtime False False 1)
          (one_file ''static/leaf.png'' (image_file green_leaf)) ''static/leaf.png'')"
proof -
  have "\<not> HAS_PIL (demo_runtime False False 1)" by (simp add: demo_runtime_def)
  moreover have "\<bar>hash (demo_runtime False False 1) (basename ''static/leaf.png'')\<bar> mod 4 = 0"
    by (simp add: demo_runtime_def basename_def leaf_hash)
  moreover have "\<not> is_healthy (makePrediction (demo_runtime False False 1)
          (one_file ''static/leaf.png'' (image_file green_leaf)) ''static/leaf.png'')"
    by (simp add: no_pil_leaf leaf_picks potato_not_healthy)
  ultimately show ?thesis by (intro conjI)
qed

text \<open>
  C5.  The success flag of the API response.  It is true exactly when the body of the
  request is no longer than 16 MiB, the request carries an upload with a non-empty name of an
  allowed extension, and the upload could be stored; it is then true whatever \<^verbatim>\<open>makePrediction\<close> returned, and \<^verbatim>\<open>original_prediction\<close> carries that
  return value unchanged.  The flag is not computed from the label.
\<close>

theorem success_flag_upload_only:
  "(success_flag (fst (api_predict rt w req)) \<longleftrightarrow>
      content_length req \<le> MAX_CONTENT_LENGTH
      \<and> (\<exists>img. req_img req = Some img \<and> up_filename img \<noteq> [] \<and> allowed_file (up_filename img)
              \<and> writable w))
   \<and> (success_flag (fst (api_predict rt w req)) \<longrightarrow>
        raw_label (fst (api_predict rt w req))
        = Some (makePrediction rt (snd (api_predict rt w req))
                  (path_join (IMAGE_FOLDER rt)
                     (generate_unique_filename req (up_filename (the (req_img req)))))))"
proof (cases "MAX_CONTENT_LENGTH < content_length req")
  case True
  then show ?thesis
    by (simp add: oversized_upload_rejected success_flag_def)
next
  case small: False
  show ?thesis
  proof (cases "req_img req")
    case None
    then show ?thesis
      using small by (simp add: api_predict_def api_predict_try_def success_flag_def)
  next
    case (Some img)
    show ?thesis
    proof (cases "up_filename img \<noteq> [] \<and> allowed_file (up_filename img) \<and> writable w")
      case True
      then show ?thesis
        using Some small
        by (simp add: api_predict_def api_predict_try_def save_def Let_def success_flag_def
            raw_label_def)
    next
      case False
      then show ?thesis
        using Some small
        by (auto simp: api_predict_def api_predict_try_def save_def Let_def success_flag_def)
    qed
  qed
qed

theorem success_flag_upload_only_witness:
  "success_flag (fst (api_predict (demo_runtime True True 0) empty_disk notes_request))
   \<and> raw_label (fst (api_predict (demo_runtime True True 0) empty_disk notes_request))
       = Some (makePrediction (demo_runtime True True 0)
                 (snd (api_predict (demo_runtime True True 0) empty_disk notes_request))
                 (path_join (IMAGE_FOLDER (demo_runtime True True 0))
                    (generate_unique_filename notes_request
                       (up_filename (the (req_img notes_request))))))"
proof -
  have s: "success_flag (fst (api_predict (demo_runtime True True 0) empty_disk notes_request))"
    by (rule notes_response)
  note inst = success_flag_upload_only[of "demo_runtime True True 0" empty_disk notes_request]
  show ?thesis
    using s inst[THEN conjunct2, THEN mp, OF s] by (intro conjI)
qed

text \<open>
  The claim as written fails: an upload that is no image is answered with success true and
  the raw label \<^verbatim>\<open>Error: Invalid image format\<close>.
\<close>

theorem success_flag_counterexample:
  "success_flag (fst (api_predict (demo_runtime True True 0) empty_disk notes_request))
   \<and> raw_label (fst (api_predict (demo_runtime True True 0) empty_disk notes_request))
       = Some ''Error: Invalid image format''
   \<and> is_error ''Error: Invalid image format''"
  by (simp add: notes_response is_error_def)


text \<open>
  C8.  The size cap and the format allow-list are checked by \<^verbatim>\<open>validate_image\<close> only, and
  \<^verbatim>\<open>makePrediction\<close> does not call it.  A BMP image and a file of 20 MiB are both rejected by
  \<^verbatim>\<open>validate_image\<close> and are both given a taxonomy label by \<^verbatim>\<open>makePrediction\<close>.
\<close>

theorem unvalidated_input_reaches_selection:
  "validate_image (demo_runtime True True 0)
      (one_file ''static/leaf.png'' (image_file bmp_leaf)) ''static/leaf.png''
     = (False, ''Unsupported image format'')
   \<and> makePrediction (demo_runtime True True 0)
      (one_file ''static/leaf.png'' (image_file bmp_leaf)) ''static/leaf.png'' \<in> set classes
   \<and> validate_image (demo_runtime True True 0)
      (one_file ''static/leaf.png'' huge_file) ''static/leaf.png''
     = (False, ''Image file too large (max 16MB)'')
   \<and> makePrediction (demo_runtime True True 0)
      (one_file ''static/leaf.png'' huge_file) ''static/leaf.png'' \<in> set classes"
proof -
  let ?rt = "demo_runtime True True 0"
  have pil: "HAS_PIL ?rt" by (simp add: demo_runtime_def)
  have f1: "files (one_file ''static/leaf.png'' (image_file bmp_leaf)) ''static/leaf.png''
      = Some (image_file bmp_leaf)"
    and f2: "files (one_file ''static/leaf.png'' huge_file) ''static/leaf.png'' = Some huge_file"
    by (simp_all add: one_file_def)
  have v1: "validate_image ?rt (one_file ''static/leaf.png'' (image_file bmp_leaf)) ''static/leaf.png''
      = (False, ''Unsupported image format'')"
    using f1 _ pil
    by (rule validate_image_unsupported[where img = bmp_leaf])
      (simp_all add: image_file_def bmp_leaf_def)
  have v2: "validate_image ?rt (one_file ''static/leaf.png'' huge_file) ''static/leaf.png''
      = (False, ''Image file too large (max 16MB)'')"
    using f2 by (rule validate_image_oversized) (simp add: huge_file_def)
  have l1: "load_image ?rt (image_file bmp_leaf) = Inr (bmp_leaf\<lparr>img_filename := None\<rparr>)"
    by (simp add: load_image_def image_file_def demo_runtime_def bmp_leaf_def solid_image_def)
  have l2: "load_image ?rt huge_file
      = Inr ((solid_image 100 100 (200, 30, 30))\<lparr>img_filename := None\<rparr>)"
    by (simp add: load_image_def huge_file_def demo_runtime_def solid_image_def)
  show ?thesis
    using v1 v2 validated_label[OF pil f1 l1] validated_label[OF pil f2 l2] by (intro conjI)
qed

text \<open>
  C4.  On ASCII input (and on \<^verbatim>\<open>None\<close>) \<^verbatim>\<open>format_prediction\<close> computes the display string in which every \<^verbatim>\<open>___\<close> has become
  \<^verbatim>\<open>" - "\<close> and every other underscore a space, each word is lower-cased if it is a minor word
  and capitalised otherwise, and the words are joined by single spaces; \<^verbatim>\<open>None\<close> and the empty
  string give \<^verbatim>\<open>Unknown condition\<close>.  The function is total.
\<close>

theorem format_prediction_display:
  assumes "ascii_input raw"
  shows "format_prediction raw = display_every raw"
proof (cases raw)
  case None
  then show ?thesis by (simp add: format_prediction_def display_every_def)
next
  case (Some s)
  have "foldl (\<lambda>acc word. if lower word \<in> set minor_words then acc @ [lower word]
                            else acc @ [capitalize word]) [] ws
        = map display_word ws" for ws
    unfolding append_loop by (simp add: display_word_def)
  then show ?thesis
    using Some
    by (simp add: format_prediction_def display_every_def Let_def str_replace_separator
        str_replace_underscore)
qed

theorem format_prediction_display_witness:
  "ascii_input (Some ''Tomato___Spider_mites Two-spotted_spider_mite'')
   \<and> display_every (Some ''Tomato___Spider_mites Two-spotted_spider_mite'')
       = ''Tomato - Spider Mites Two-spotted Spider Mite''"
proof -
  have a: "ascii_input (Some ''Tomato___Spider_mites Two-spotted_spider_mite'')"
    by (simp add: ascii_input_def is_ascii_def)
  show ?thesis
    using a format_prediction_display[OF a] by (simp add: format_prediction_examples)
qed

text \<open>
  The claim as written, with only the first separator replaced, fails on a label with two
  separators: the code writes a second dash where the specification has a space.
\<close>

theorem format_prediction_counterexample:
  "format_prediction (Some ''a___b___c'') \<noteq> display_first (Some ''a___b___c'')"
  by (simp add: format_prediction_examples)

text \<open>
  C6.  The NumPy branch of \<^verbatim>\<open>mock_prediction\<close> on a validated image (the pixel array has
  width times height entries, both between 50 and 5000).  If the green mean is more than 1.2
  times the red mean and more than 1.2 times the blue mean, the label is drawn from the
  healthy subset; if it is less than 1.2 times the red mean or less than 1.2 times the blue
  mean, the label is drawn from the diseased subset.  The means here are the exact ones;
  the code compares their float64 roundings, which decide the same way off the boundary.
  A 50 by 50 image of pure green is the witness for the healthy case.
\<close>

theorem green_dominance:
  assumes "HAS_NUMPY rt" "img_pixels img = Inr px" "img_size img = (width, height)"
    "length px = width * height" "50 \<le> width" "width \<le> 5000" "50 \<le> height" "height \<le> 5000"
  shows "(6 / 5 * exact_mean (red px) < exact_mean (green px)
          \<and> 6 / 5 * exact_mean (blue px) < exact_mean (green px)
          \<longrightarrow> mock_prediction rt img classes \<in> set (filter is_healthy classes))
       \<and> (exact_mean (green px) < 6 / 5 * exact_mean (red px)
          \<or> exact_mean (green px) < 6 / 5 * exact_mean (blue px)
          \<longrightarrow> mock_prediction rt img classes \<in> set (filter (\<lambda>c. \<not> is_healthy c) classes))"
proof -
  have "50 * 50 \<le> width * height" using assms(5,7) by (rule mult_le_mono)
  then have pos: "0 < length px" unfolding assms(4) by linarith
  have "width * height \<le> 5000 * 5000" using assms(6,8) by (rule mult_le_mono)
  then have le: "length px \<le> 25000000" unfolding assms(4) by linarith
  show ?thesis
  proof (intro conjI impI)
    assume "6 / 5 * exact_mean (red px) < exact_mean (green px)
          \<and> 6 / 5 * exact_mean (blue px) < exact_mean (green px)"
    then have "very_green (np_mean px)" by (rule very_green_exact(1)[OF pos le])
    then show "mock_prediction rt img classes \<in> set (filter is_healthy classes)"
      using mock_prediction_green[OF assms(1,2)] pick_mem[OF healthy_nonempty] by simp
  next
    assume "exact_mean (green px) < 6 / 5 * exact_mean (red px)
          \<or> exact_mean (green px) < 6 / 5 * exact_mean (blue px)"
    then have "\<not> very_green (np_mean px)" by (rule very_green_exact(2)[OF pos le])
    then show "mock_prediction rt img classes \<in> set (filter (\<lambda>c. \<not> is_healthy c) classes)"
      using mock_prediction_not_green[OF assms(1,2)] pick_mem[OF disease_nonempty] by simp
  qed
qed

theorem green_dominance_witness:
  "HAS_NUMPY (demo_runtime True True 0)
   \<and> img_pixels green_leaf = Inr (replicate (50 * 50) (0, 255, 0))
   \<and> img_size green_leaf = (50, 50)
   \<and> 6 / 5 * exact_mean (red (replicate (50 * 50) (0, 255, 0)))
       < exact_mean (green (replicate (50 * 50) (0, 255, 0)))
   \<and> 6 / 5 * exact_mean (blue (replicate (50 * 50) (0, 255, 0)))
       < exact_mean (green (replicate (50 * 50) (0, 255, 0)))
   \<and> mock_prediction (demo_runtime True True 0) green_leaf classes \<in> set (filter is_healthy classes)
   \<and> img_pixels red_leaf = Inr (replicate (100 * 100) (200, 30, 30))
   \<and> img_size red_leaf = (100, 100)
   \<and> exact_mean (green (replicate (100 * 100) (200, 30, 30)))
       < 6 / 5 * exact_mean (red (replicate (100 * 100) (200, 30, 30)))
   \<and> mock_prediction (demo_runtime True True 0) red_leaf classes
       \<in> set (filter (\<lambda>c. \<not> is_healthy c) classes)"
proof -
  let ?rt = "demo_runtime True True 0"
  let ?g = "replicate (50 * 50) (0, 255, 0) :: pixel list"
  let ?r = "replicate (100 * 100) (200, 30, 30) :: pixel list"
  have n: "HAS_NUMPY ?rt" by (simp add: demo_runtime_def)
  have g1: "img_pixels green_leaf = Inr ?g" and g2: "img_size green_leaf = (50, 50)"
    by (simp_all add: green_leaf_def solid_image_def)
  have g3: "length ?g = 50 * 50" by simp
  have g4: "6 / 5 * exact_mean (red ?g) < exact_mean (green ?g)
          \<and> 6 / 5 * exact_mean (blue ?g) < exact_mean (green ?g)"
    by (simp add: exact_mean_replicate)
  have r1: "img_pixels red_leaf = Inr ?r" and r2: "img_size red_leaf = (100, 100)"
    by (simp_all add: red_leaf_def solid_image_def)
  have r3: "length ?r = 100 * 100" by simp
  have r4: "exact_mean (green ?r) < 6 / 5 * exact_mean (red ?r)"
    by (simp add: exact_mean_replicate)
  note healthy = green_dominance[OF n g1 g2 g3, THEN conjunct1, THEN mp, OF _ _ _ _ g4]
  note diseased = green_dominance[OF n r1 r2 r3, THEN conjunct2, THEN mp, OF _ _ _ _ disjI1[OF r4]]
  have a: "mock_prediction ?rt green_leaf classes \<in> set (filter is_healthy classes)"
    by (rule healthy) simp_all
  have b: "mock_prediction ?rt red_leaf classes \<in> set (filter (\<lambda>c. \<not> is_healthy c) classes)"
    by (rule diseased) simp_all
  show ?thesis
    using n g1 g2 g4 a r1 r2 r4 b by (intro conjI) simp_all
qed

text \<open>
  The claim as written (a factor of at least 1.2) fails on the boundary: in the 50 by 50
  image whose pixels are all (10, 12, 0) the green mean is exactly 1.2 times the red mean,
  the test of the code is the strict \<^verbatim>\<open>12.0 > 10.0 * 1.2\<close>, which is false in float64, and the
  label is drawn from the diseased subset.
\<close>

theorem green_dominance_counterexample:
  "img_pixels olive_leaf = Inr (replicate (50 * 50) (10, 12, 0))
   \<and> img_size olive_leaf = (50, 50)
   \<and> np_mean (replicate (50 * 50) (10, 12, 0)) = (10, 12, 0)
   \<and> 6 / 5 * exact_mean (red (replicate (50 * 50) (10, 12, 0)))
       \<le> exact_mean (green (replicate (50 * 50) (10, 12, 0)))
   \<and> 6 / 5 * exact_mean (blue (replicate (50 * 50) (10, 12, 0)))
       \<le> exact_mean (green (replicate (50 * 50) (10, 12, 0)))
   \<and> mock_prediction (demo_runtime True True 0) olive_leaf classes
       \<notin> set (filter is_healthy classes)"
proof -
  let ?rt = "demo_runtime True True 0"
  let ?px = "replicate (50 * 50) (10, 12, 0) :: pixel list"
  have n: "HAS_NUMPY ?rt" by (simp add: demo_runtime_def)
  have p: "img_pixels olive_leaf = Inr ?px" and sz: "img_size olive_leaf = (50, 50)"
    by (simp_all add: olive_leaf_def solid_image_def)
  have m: "np_mean ?px = (10, 12, 0)"
    by (simp add: np_mean_replicate f64_examples)
  have v: "\<not> very_green (np_mean ?px)"
    unfolding m by (simp add: very_green_def f64_examples)
  have e: "6 / 5 * exact_mean (red ?px) \<le> exact_mean (green ?px)"
      "6 / 5 * exact_mean (blue ?px) \<le> exact_mean (green ?px)"
    by (simp_all add: exact_mean_replicate)
  have "mock_prediction ?rt olive_leaf classes \<in> set (filter (\<lambda>c. \<not> is_healthy c) classes)"
    using mock_prediction_not_green[OF n p v] pick_mem[OF disease_nonempty] by simp
  then have l: "mock_prediction ?rt olive_leaf classes \<notin> set (filter is_healthy classes)"
    by simp
  show ?thesis using p sz m e l by (intro conjI)
qed

end
